theory Spec2Isabelle
  imports Complex_Main "HOL-Library.AList" "HOL-Library.Sublist" "HOL-Library.Word"
begin

section \<open>Numbers\<close>

text \<open>
  JavaScript numbers are modelled as follows: millisecond timestamps, latencies and
  counters are integers (\<open>int\<close>, \<open>nat\<close>); quotients such as averages and timer
  intervals are exact rationals (\<open>rat\<close>); the decimal constants \<open>0.5\<close>, \<open>0.95\<close>
  and \<open>0.99\<close> are the exact fractions. \<open>Math.min()\<close> and \<open>Math.max()\<close> of no
  arguments give the infinities, which are values of their own.
\<close>

datatype 'a js_number = Finite 'a | PosInfinity | NegInfinity

text \<open>\<open>Math.min(...xs)\<close> and \<open>Math.max(...xs)\<close>: the fold starts from the infinity.\<close>

fun js_min2 :: "int js_number \<Rightarrow> int \<Rightarrow> int js_number" where
  "js_min2 PosInfinity x = Finite x"
| "js_min2 NegInfinity x = NegInfinity"
| "js_min2 (Finite m) x = Finite (min m x)"

fun js_max2 :: "int js_number \<Rightarrow> int \<Rightarrow> int js_number" where
  "js_max2 NegInfinity x = Finite x"
| "js_max2 PosInfinity x = PosInfinity"
| "js_max2 (Finite m) x = Finite (max m x)"

definition Math_min :: "int list \<Rightarrow> int js_number" where
  "Math_min xs = foldl js_min2 PosInfinity xs"

definition Math_max :: "int list \<Rightarrow> int js_number" where
  "Math_max xs = foldl js_max2 NegInfinity xs"

text \<open>\<open>xs[i]\<close> is \<open>undefined\<close> (here \<open>None\<close>) beyond the end of the array.\<close>

definition js_index :: "'a list \<Rightarrow> nat \<Rightarrow> 'a option" where
  "js_index xs i = (if i < length xs then Some (xs ! i) else None)"

text \<open>\<open>v || 0\<close> on a number or \<open>undefined\<close>: \<open>undefined\<close> and \<open>0\<close> give \<open>0\<close>.\<close>

definition or_zero :: "int option \<Rightarrow> int" where
  "or_zero v = (case v of None \<Rightarrow> 0 | Some x \<Rightarrow> (if x = 0 then 0 else x))"

text \<open>\<open>Math.floor(count * p)\<close> for a count and a fraction \<open>p\<close>.\<close>

definition floor_times :: "nat \<Rightarrow> rat \<Rightarrow> nat" where
  "floor_times count p = nat \<lfloor>rat_of_nat count * p\<rfloor>"

section \<open>Records and snapshots\<close>

text \<open>\<open>CryptoData\<close> (backend, \<open>types/models.ts\<close>).\<close>

record CryptoData =
  symbol :: string
  name :: string
  price :: rat
  priceChange24h :: rat
  marketCap :: rat
  volume24h :: rat
  high24h :: rat
  low24h :: rat
  lastUpdated :: int

text \<open>
  \<open>WorldState\<close>: the root table of a frame, as \<open>encode\<close> hands it to the FlatBuffers
  builder.
\<close>

record WorldState =
  cryptos :: "CryptoData list"
  frameId :: nat
  timestamp :: int
  totalCryptos :: nat

section \<open>Consumer: the frame decoder (mobile FlatBuffersAdapter)\<close>

type_synonym byte = "8 word"

text \<open>Static fields of the mobile \<open>FlatBuffersAdapter\<close>.\<close>

record DecoderStats =
  totalDecodeTime :: rat
  totalDecoded :: nat
  minDecodeTime :: "rat js_number"
  maxDecodeTime :: rat

definition Decoder_initial :: DecoderStats where
  "Decoder_initial =
     \<lparr>totalDecodeTime = 0, totalDecoded = 0, minDecodeTime = PosInfinity, maxDecodeTime = 0\<rparr>"

definition Decoder_resetMetrics :: "DecoderStats \<Rightarrow> DecoderStats" where
  "Decoder_resetMetrics d = Decoder_initial"

fun min_decode :: "rat js_number \<Rightarrow> rat \<Rightarrow> rat js_number" where
  "min_decode PosInfinity t = Finite t"
| "min_decode NegInfinity t = NegInfinity"
| "min_decode (Finite m) t = Finite (min m t)"

definition updateMetrics :: "rat \<Rightarrow> DecoderStats \<Rightarrow> DecoderStats" where
  "updateMetrics decodeTime d =
     d\<lparr>totalDecodeTime := totalDecodeTime d + decodeTime,
       totalDecoded := totalDecoded d + 1,
       minDecodeTime := min_decode (minDecodeTime d) decodeTime,
       maxDecodeTime := max (maxDecodeTime d) decodeTime\<rparr>"

record DecoderMetrics =
  averageDecodeTime :: rat
  dm_minDecodeTime :: "rat js_number"
  dm_maxDecodeTime :: rat
  dm_totalDecoded :: nat

definition Decoder_getMetrics :: "DecoderStats \<Rightarrow> DecoderMetrics" where
  "Decoder_getMetrics d =
     \<lparr>averageDecodeTime =
        (if totalDecoded d > 0 then totalDecodeTime d / rat_of_nat (totalDecoded d) else 0),
      dm_minDecodeTime =
        (case minDecodeTime d of PosInfinity \<Rightarrow> Finite 0 | m \<Rightarrow> m),
      dm_maxDecodeTime = maxDecodeTime d,
      dm_totalDecoded = totalDecoded d\<rparr>"

subsection \<open>The byte buffer (class \<open>ByteBuffer\<close> of the \<open>flatbuffers\<close> package)\<close>

text \<open>
  \<open>decode\<close> reads the buffer through the \<open>ByteBuffer\<close> class of the \<open>flatbuffers\<close>
  package and through the accessors that \<open>flatc\<close> generates from \<open>crypto.fbs\<close>. The
  methods are written here as the package has them (the release that reads 64-bit fields
  as \<open>bigint\<close>, which the \<open>Number(...)\<close> calls of the adapter presuppose, and decodes
  strings with the platform's \<open>TextDecoder\<close>).

  A position in the buffer is a JavaScript number and is modelled as an unbounded
  integer. \<open>this.bytes_[i]\<close> is \<open>undefined\<close> when \<open>i\<close> is outside the array, and the
  bitwise operators that combine the bytes read \<open>undefined\<close> as \<open>0\<close>: no read of the
  class tests a bound, and none raises.
\<close>

definition bytes_at :: "byte list \<Rightarrow> int \<Rightarrow> int" where
  "bytes_at bb i = (if 0 \<le> i \<and> i < int (length bb) then uint (bb ! nat i) else 0)"

text \<open>The value of a bitwise expression is a signed integer of 32 bits.\<close>

definition to_int32 :: "int \<Rightarrow> int" where
  "to_int32 u = (if u mod 2 ^ 32 < 2 ^ 31 then u mod 2 ^ 32 else u mod 2 ^ 32 - 2 ^ 32)"

text \<open>\<open>readUint16(o) = bytes_[o] | bytes_[o + 1] << 8\<close>.\<close>

definition readUint16 :: "byte list \<Rightarrow> int \<Rightarrow> int" where
  "readUint16 bb offset = bytes_at bb offset + 256 * bytes_at bb (offset + 1)"

text \<open>\<open>readInt16(o) = (readUint16(o) << 16) >> 16\<close>: the sign bit is bit 15.\<close>

definition readInt16 :: "byte list \<Rightarrow> int \<Rightarrow> int" where
  "readInt16 bb offset =
     (let u = readUint16 bb offset in if u < 32768 then u else u - 65536)"

text \<open>
  \<open>readInt32(o) = bytes_[o] | bytes_[o + 1] << 8 | bytes_[o + 2] << 16 | bytes_[o + 3] << 24\<close>.
\<close>

definition readInt32 :: "byte list \<Rightarrow> int \<Rightarrow> int" where
  "readInt32 bb offset =
     to_int32 (bytes_at bb offset + 256 * bytes_at bb (offset + 1) +
               65536 * bytes_at bb (offset + 2) + 16777216 * bytes_at bb (offset + 3))"

text \<open>\<open>readUint32(o) = readInt32(o) >>> 0\<close>.\<close>

definition readUint32 :: "byte list \<Rightarrow> int \<Rightarrow> nat" where
  "readUint32 bb offset = nat (readInt32 bb offset mod 2 ^ 32)"

text \<open>
  \<open>readUint64(o) = BigInt.asUintN(64, BigInt(readUint32(o)) + (BigInt(readUint32(o + 4)) << 32n))\<close>.
\<close>

definition readUint64 :: "byte list \<Rightarrow> int \<Rightarrow> nat" where
  "readUint64 bb offset =
     (readUint32 bb offset + readUint32 bb (offset + 4) * 2 ^ 32) mod 2 ^ 64"

text \<open>
  \<open>readFloat32(o)\<close> stores \<open>readInt32(o)\<close> and reads the same four bytes as a float. A
  float is modelled by its 32 bits: the number is the one that IEEE 754 gives them.
\<close>

type_synonym float32 = "32 word"

definition readFloat32 :: "byte list \<Rightarrow> int \<Rightarrow> float32" where
  "readFloat32 bb offset = word_of_int (readInt32 bb offset)"

text \<open>
  \<open>__offset(bb_pos, vtable_offset)\<close>: the position of a field relative to its table, or
  \<open>0\<close> when the table's vtable has no slot for it.
\<close>

definition bb_offset :: "byte list \<Rightarrow> int \<Rightarrow> nat \<Rightarrow> int" where
  "bb_offset bb bb_pos vtable_offset =
     (let vtable = bb_pos - readInt32 bb bb_pos
      in if int vtable_offset < readInt16 bb vtable
         then readInt16 bb (vtable + int vtable_offset)
         else 0)"

text \<open>\<open>__indirect\<close>, \<open>__vector\<close> and \<open>__vector_len\<close>.\<close>

definition bb_indirect :: "byte list \<Rightarrow> int \<Rightarrow> int" where
  "bb_indirect bb offset = offset + readInt32 bb offset"

definition bb_vector :: "byte list \<Rightarrow> int \<Rightarrow> int" where
  "bb_vector bb offset = offset + readInt32 bb offset + 4"

definition bb_vector_len :: "byte list \<Rightarrow> int \<Rightarrow> int" where
  "bb_vector_len bb offset = readInt32 bb (offset + readInt32 bb offset)"

text \<open>
  \<open>bytes_.subarray(start, stop)\<close>: a negative index counts from the end of the array, and
  both indices are clamped to the array.
\<close>

definition subarray :: "byte list \<Rightarrow> int \<Rightarrow> int \<Rightarrow> byte list" where
  "subarray bb start stop =
     (let len = int (length bb);
          b = (if start < 0 then max (len + start) 0 else min start len);
          e = (if stop < 0 then max (len + stop) 0 else min stop len)
      in take (nat (e - b)) (drop (nat b) bb))"

text \<open>
  \<open>__string(offset)\<close>: follow the offset, read the length, and hand the bytes to the
  text decoder of the platform, which is a parameter (it replaces what is not UTF-8 and
  does not raise).
\<close>

definition bb_string :: "(byte list \<Rightarrow> string) \<Rightarrow> byte list \<Rightarrow> int \<Rightarrow> string" where
  "bb_string text_decoder bb offset0 =
     (let offset1 = offset0 + readInt32 bb offset0;
          len = readInt32 bb offset1;
          offset2 = offset1 + 4
      in text_decoder (subarray bb offset2 (offset2 + len)))"

subsection \<open>The generated accessors (\<open>generated/crypto-dashboard\<close>)\<close>

text \<open>
  The schema file and the accessors generated from it are not among the sources. What
  decides an accessor is the vtable slot of its field and the type of the field; the
  slots are a parameter, together with the text decoder. The README shows of the schema
  the fields \<open>symbol\<close>, \<open>name\<close> (strings), \<open>price\<close>, \<open>price_change_24h\<close> (\<open>float\<close>) of
  \<open>Crypto\<close> and \<open>cryptos\<close>, \<open>frame_id\<close>, \<open>timestamp\<close> (\<open>uint64\<close>) of \<open>WorldState\<close>. The
  fields it leaves out are given the types of the ones it shows: \<open>float\<close> for the four
  other numbers of \<open>Crypto\<close>, \<open>uint64\<close> for \<open>last_updated\<close> (the adapter converts it with
  \<open>Number\<close>), and an unsigned integer of 32 bits for \<open>total_cryptos\<close> (the adapter takes it
  as a number).
\<close>

record generated =
  text_decoder :: "byte list \<Rightarrow> string"
  vt_cryptos :: nat
  vt_frame_id :: nat
  vt_timestamp :: nat
  vt_total_cryptos :: nat
  vt_symbol :: nat
  vt_name :: nat
  vt_price :: nat
  vt_price_change_24h :: nat
  vt_market_cap :: nat
  vt_volume_24h :: nat
  vt_high_24h :: nat
  vt_low_24h :: nat
  vt_last_updated :: nat

text \<open>
  \<open>WorldState.getRootAsWorldState(bb)\<close>: the table is at
  \<open>bb.readInt32(bb.position()) + bb.position()\<close>, and the position of a new buffer is 0.
\<close>

definition getRootAsWorldState :: "byte list \<Rightarrow> int" where
  "getRootAsWorldState bb = readInt32 bb 0 + 0"

text \<open>
  An accessor of a scalar: \<open>offset ? bb.read...(bb_pos + offset) : default\<close>, with
  \<open>offset = bb.__offset(bb_pos, slot)\<close>.
\<close>

definition read_field :: "(byte list \<Rightarrow> int \<Rightarrow> 'a) \<Rightarrow> 'a \<Rightarrow> byte list \<Rightarrow> int \<Rightarrow> nat \<Rightarrow> 'a" where
  "read_field read dflt bb bb_pos slot =
     (let offset = bb_offset bb bb_pos slot
      in if offset \<noteq> 0 then read bb (bb_pos + offset) else dflt)"

text \<open>The accessors of \<open>WorldState\<close>; \<open>cryptos(i)\<close> gives the position of the element.\<close>

definition cryptosLength :: "generated \<Rightarrow> byte list \<Rightarrow> int \<Rightarrow> int" where
  "cryptosLength g bb bb_pos =
     (let offset = bb_offset bb bb_pos (vt_cryptos g)
      in if offset \<noteq> 0 then bb_vector_len bb (bb_pos + offset) else 0)"

definition cryptos_at :: "generated \<Rightarrow> byte list \<Rightarrow> int \<Rightarrow> nat \<Rightarrow> int option" where
  "cryptos_at g bb bb_pos index =
     (let offset = bb_offset bb bb_pos (vt_cryptos g)
      in if offset \<noteq> 0
         then Some (bb_indirect bb (bb_vector bb (bb_pos + offset) + int index * 4))
         else None)"

definition frameId_of :: "generated \<Rightarrow> byte list \<Rightarrow> int \<Rightarrow> nat" where
  "frameId_of g bb bb_pos = read_field readUint64 0 bb bb_pos (vt_frame_id g)"

definition timestamp_of :: "generated \<Rightarrow> byte list \<Rightarrow> int \<Rightarrow> nat" where
  "timestamp_of g bb bb_pos = read_field readUint64 0 bb bb_pos (vt_timestamp g)"

definition totalCryptos_of :: "generated \<Rightarrow> byte list \<Rightarrow> int \<Rightarrow> nat" where
  "totalCryptos_of g bb bb_pos = read_field readUint32 0 bb bb_pos (vt_total_cryptos g)"

text \<open>
  The accessors of \<open>Crypto\<close>. A string accessor returns \<open>null\<close> (\<open>None\<close>) when the field
  is absent.
\<close>

definition string_field :: "generated \<Rightarrow> byte list \<Rightarrow> int \<Rightarrow> nat \<Rightarrow> string option" where
  "string_field g bb bb_pos slot =
     (let offset = bb_offset bb bb_pos slot
      in if offset \<noteq> 0 then Some (bb_string (text_decoder g) bb (bb_pos + offset)) else None)"

definition float_field :: "byte list \<Rightarrow> int \<Rightarrow> nat \<Rightarrow> float32" where
  "float_field bb bb_pos slot = read_field readFloat32 0 bb bb_pos slot"

subsection \<open>The adapter\<close>

text \<open>
  \<open>Number(b)\<close> for a \<open>bigint\<close> \<open>b \<ge> 0\<close>: \<open>b\<close> itself below \<open>2^53\<close>, otherwise \<open>b\<close> rounded to
  53 significant bits, a tie going to the even neighbour.
\<close>

fun bit_length :: "nat \<Rightarrow> nat" where
  "bit_length n = (if n = 0 then 0 else Suc (bit_length (n div 2)))"

definition js_Number :: "nat \<Rightarrow> nat" where
  "js_Number b =
     (if b < 2 ^ 53 then b
      else let e = bit_length b - 53;
               q = b div 2 ^ e;
               r = b mod 2 ^ e
           in (if 2 ^ e < 2 * r \<or> (2 * r = 2 ^ e \<and> odd q) then q + 1 else q) * 2 ^ e)"

text \<open>The view models of \<open>types/viewModels.ts\<close>, as the adapter fills them.\<close>

record CryptoViewModel =
  vm_symbol :: string
  vm_name :: string
  vm_price :: float32
  vm_priceChange24h :: float32
  vm_marketCap :: float32
  vm_volume24h :: float32
  vm_high24h :: float32
  vm_low24h :: float32
  vm_lastUpdated :: nat

record WorldStateViewModel =
  vm_cryptos :: "CryptoViewModel list"
  vm_frameId :: nat
  vm_timestamp :: nat
  vm_totalCryptos :: nat

datatype js_exception = Thrown string

text \<open>\<open>s || ""\<close> on a string or \<open>null\<close>.\<close>

definition or_empty :: "string option \<Rightarrow> string" where
  "or_empty v = (case v of None \<Rightarrow> [] | Some s \<Rightarrow> s)"

definition cryptoToViewModel :: "generated \<Rightarrow> byte list \<Rightarrow> int \<Rightarrow> CryptoViewModel" where
  "cryptoToViewModel g bb fbCrypto =
     \<lparr>vm_symbol = or_empty (string_field g bb fbCrypto (vt_symbol g)),
      vm_name = or_empty (string_field g bb fbCrypto (vt_name g)),
      vm_price = float_field bb fbCrypto (vt_price g),
      vm_priceChange24h = float_field bb fbCrypto (vt_price_change_24h g),
      vm_marketCap = float_field bb fbCrypto (vt_market_cap g),
      vm_volume24h = float_field bb fbCrypto (vt_volume_24h g),
      vm_high24h = float_field bb fbCrypto (vt_high_24h g),
      vm_low24h = float_field bb fbCrypto (vt_low_24h g),
      vm_lastUpdated = js_Number (read_field readUint64 0 bb fbCrypto (vt_last_updated g))\<rparr>"

text \<open>
  The loop of \<open>toViewModel\<close>: \<open>for (i = 0; i < length; i++)\<close>, pushing the view model of
  every element that is not \<open>null\<close>. \<open>collect_cryptos get n\<close> is the array after the
  iterations \<open>0, ..., n - 1\<close>.
\<close>

fun collect_cryptos :: "(nat \<Rightarrow> CryptoViewModel option) \<Rightarrow> nat \<Rightarrow> CryptoViewModel list" where
  "collect_cryptos get 0 = []"
| "collect_cryptos get (Suc i) =
     collect_cryptos get i @ (case get i of None \<Rightarrow> [] | Some c \<Rightarrow> [c])"

text \<open>
  \<open>toViewModel\<close>. The bound of the loop is the number \<open>cryptosLength()\<close> reads from the
  buffer (no iteration if it is negative); nothing compares it with the size of the buffer.
\<close>

definition toViewModel :: "generated \<Rightarrow> byte list \<Rightarrow> int \<Rightarrow> WorldStateViewModel" where
  "toViewModel g bb worldState =
     (let len = cryptosLength g bb worldState
      in \<lparr>vm_cryptos =
            collect_cryptos
              (\<lambda>i. map_option (cryptoToViewModel g bb) (cryptos_at g bb worldState i))
              (nat len),
          vm_frameId = js_Number (frameId_of g bb worldState),
          vm_timestamp = js_Number (timestamp_of g bb worldState),
          vm_totalCryptos = totalCryptos_of g bb worldState\<rparr>)"

text \<open>
  \<open>decode\<close>. \<open>decodeTime\<close> is the measured \<open>performance.now()\<close> difference. The \<open>catch\<close>
  block replaces whatever the \<open>try\<close> block raises by the one error
  \<open>new Error("Failed to decode binary data")\<close>; the calls of the \<open>try\<close> block are the
  ones above, none of which raises, so every buffer gets a view model and the metrics
  are updated. The result is a sum because the caller has a \<open>try\<close> of its own.
\<close>

definition decode ::
  "generated \<Rightarrow> rat \<Rightarrow> byte list \<Rightarrow> DecoderStats \<Rightarrow> (js_exception + WorldStateViewModel) \<times> DecoderStats"
where
  "decode g decodeTime buffer d =
     (let bb = buffer;
          worldState = getRootAsWorldState bb;
          viewModel = toViewModel g bb worldState
      in (Inr viewModel, updateMetrics decodeTime d))"

text \<open>\<open>isValidBuffer\<close>; nothing calls it.\<close>

definition isValidBuffer :: "byte list \<Rightarrow> bool" where
  "isValidBuffer buffer = (if length buffer < 8 then False else True)"

section \<open>Consumer: the connection manager (WebSocketManager)\<close>

datatype ConnectionStatus = DISCONNECTED | CONNECTING | CONNECTED | RECONNECTING | ERROR

record PerformanceMetrics =
  latencyP50 :: int
  latencyP95 :: int
  latencyP99 :: int
  averageLatency :: rat
  maxLatency :: "int js_number"
  minLatency :: "int js_number"
  currentFrameRate :: nat
  frameDropCount :: nat
  frameDropPercentage :: nat
  pm_messagesReceived :: nat
  pm_bytesReceived :: nat
  bytesPerSecond :: rat
  messagesPerSecond :: rat
  averageDeserializeTime :: rat
  maxDeserializeTime :: rat
  minDeserializeTime :: "rat js_number"
  isConnected :: bool
  connectionUptime :: rat
  pm_reconnectAttempts :: nat

text \<open>
  The state of the consumer. First the fields of the \<open>WebSocketManager\<close> singleton
  (\<open>ws\<close> and \<open>reconnectTimeout\<close> hold handles, \<open>None\<close> is \<open>null\<close>); then the atoms
  of the store it writes; then the static fields of the decoder; then the part of the
  JavaScript runtime the manager talks to: the timeouts that are pending (handle and
  delay), every delay ever passed to \<open>setTimeout\<close> (oldest first), the next timer
  handle, the number of sockets constructed, and the \<open>close(code)\<close> calls made on
  sockets (socket and code, oldest first).
\<close>

record consumer =
  ws :: "nat option"
  reconnectTimeout :: "nat option"
  url :: string
  currentReconnectDelay :: nat
  latencySamples :: "int list"
  messagesReceived :: nat
  bytesReceived :: nat
  connectionStartTime :: int
  reconnectAttempts :: nat
  connectionStatusAtom :: ConnectionStatus
  allCryptosAtom :: "CryptoViewModel list"
  performanceMetricsAtom :: "PerformanceMetrics option"
  decoder :: DecoderStats
  pendingTimeouts :: "(nat \<times> nat) list"
  scheduledDelays :: "nat list"
  nextTimeout :: nat
  socketsCreated :: nat
  closeCalls :: "(nat \<times> nat) list"

definition reconnectDelay :: nat where "reconnectDelay = 2000"
definition maxReconnectDelay :: nat where "maxReconnectDelay = 30000"
definition MAX_SAMPLES :: nat where "MAX_SAMPLES = 1000"

text \<open>A freshly constructed manager; no socket, no timer, status \<open>DISCONNECTED\<close>.\<close>

definition consumer_initial :: consumer where
  "consumer_initial =
     \<lparr>ws = None, reconnectTimeout = None, url = [], currentReconnectDelay = 2000,
      latencySamples = [], messagesReceived = 0, bytesReceived = 0,
      connectionStartTime = 0, reconnectAttempts = 0,
      connectionStatusAtom = DISCONNECTED, allCryptosAtom = [],
      performanceMetricsAtom = None, decoder = Decoder_initial,
      pendingTimeouts = [], scheduledDelays = [], nextTimeout = 1,
      socketsCreated = 0, closeCalls = []\<rparr>"

text \<open>\<open>clearTimeout(h)\<close>: the timeout is no longer pending.\<close>

definition clearTimeout :: "nat \<Rightarrow> consumer \<Rightarrow> consumer" where
  "clearTimeout h s = s\<lparr>pendingTimeouts := filter (\<lambda>t. fst t \<noteq> h) (pendingTimeouts s)\<rparr>"

text \<open>
  \<open>scheduleReconnect\<close>: cancel the previous timeout, count the attempt, set the status,
  schedule \<open>connect(this.url)\<close> after the current delay, then double the delay up to
  the maximum.
\<close>

definition scheduleReconnect :: "consumer \<Rightarrow> consumer" where
  "scheduleReconnect s0 =
     (let s1 = (case reconnectTimeout s0 of None \<Rightarrow> s0 | Some h \<Rightarrow> clearTimeout h s0);
          s2 = s1\<lparr>reconnectAttempts := reconnectAttempts s1 + 1,
                  connectionStatusAtom := RECONNECTING\<rparr>;
          h = nextTimeout s2;
          s3 = s2\<lparr>reconnectTimeout := Some h,
                  pendingTimeouts := pendingTimeouts s2 @ [(h, currentReconnectDelay s2)],
                  scheduledDelays := scheduledDelays s2 @ [currentReconnectDelay s2],
                  nextTimeout := h + 1\<rparr>
      in s3\<lparr>currentReconnectDelay := min (currentReconnectDelay s3 * 2) maxReconnectDelay\<rparr>)"

text \<open>
  \<open>connect(url)\<close>. \<open>throws\<close> says whether \<open>new WebSocket(url)\<close> raises; if it does,
  \<open>this.ws\<close> keeps its value and the \<open>catch\<close> block runs.
\<close>

definition connect :: "string \<Rightarrow> bool \<Rightarrow> consumer \<Rightarrow> consumer" where
  "connect u throws s0 =
     (let s1 = s0\<lparr>url := u, connectionStatusAtom := CONNECTING\<rparr>
      in if throws
         then scheduleReconnect (s1\<lparr>connectionStatusAtom := ERROR\<rparr>)
         else s1\<lparr>ws := Some (socketsCreated s1), socketsCreated := socketsCreated s1 + 1\<rparr>)"

text \<open>The handlers installed by \<open>setupEventHandlers\<close>.\<close>

definition onopen :: "int \<Rightarrow> consumer \<Rightarrow> consumer" where
  "onopen now s =
     s\<lparr>connectionStatusAtom := CONNECTED,
       connectionStartTime := now,
       currentReconnectDelay := reconnectDelay,
       reconnectAttempts := 0\<rparr>"

definition onerror :: "consumer \<Rightarrow> consumer" where
  "onerror s = s\<lparr>connectionStatusAtom := ERROR\<rparr>"

definition onclose :: "nat \<Rightarrow> consumer \<Rightarrow> consumer" where
  "onclose code s0 =
     (let s1 = s0\<lparr>connectionStatusAtom := DISCONNECTED\<rparr>
      in if code \<noteq> 1000 then scheduleReconnect s1 else s1)"

text \<open>\<open>disconnect()\<close>.\<close>

definition disconnect :: "consumer \<Rightarrow> consumer" where
  "disconnect s0 =
     (let s1 = (case reconnectTimeout s0 of
                  None \<Rightarrow> s0
                | Some h \<Rightarrow> (clearTimeout h s0)\<lparr>reconnectTimeout := None\<rparr>);
          s2 = (case ws s1 of
                  None \<Rightarrow> s1
                | Some w \<Rightarrow> s1\<lparr>closeCalls := closeCalls s1 @ [(w, 1000)], ws := None\<rparr>)
      in s2\<lparr>connectionStatusAtom := DISCONNECTED\<rparr>)"

text \<open>
  \<open>calculateMetrics\<close>. \<open>now\<close> is \<open>Date.now()\<close>, \<open>ws_open\<close> is
  \<open>this.ws?.readyState === WebSocket.OPEN\<close>. \<open>lastReconnectAt\<close> is always \<open>null\<close>
  and is left out.
\<close>

definition calculateMetrics :: "int \<Rightarrow> bool \<Rightarrow> consumer \<Rightarrow> PerformanceMetrics" where
  "calculateMetrics now ws_open s =
     (let sorted = sort (latencySamples s);
          count = length sorted;
          p50 = or_zero (js_index sorted (floor_times count (1 / 2)));
          p95 = or_zero (js_index sorted (floor_times count (95 / 100)));
          p99 = or_zero (js_index sorted (floor_times count (99 / 100)));
          sum = foldl (+) 0 (latencySamples s);
          avg = (if count > 0 then rat_of_int sum / rat_of_nat count else 0);
          min = Math_min (latencySamples s);
          max = Math_max (latencySamples s);
          uptime = rat_of_int (now - connectionStartTime s) / 1000;
          bps = (if uptime > 0 then rat_of_nat (bytesReceived s) / uptime else 0);
          mps = (if uptime > 0 then rat_of_nat (messagesReceived s) / uptime else 0);
          adapterMetrics = Decoder_getMetrics (decoder s)
      in \<lparr>latencyP50 = p50,
          latencyP95 = p95,
          latencyP99 = p99,
          averageLatency = avg,
          maxLatency = max,
          minLatency = (case min of PosInfinity \<Rightarrow> Finite 0 | m \<Rightarrow> m),
          currentFrameRate = 60,
          frameDropCount = 0,
          frameDropPercentage = 0,
          pm_messagesReceived = messagesReceived s,
          pm_bytesReceived = bytesReceived s,
          bytesPerSecond = bps,
          messagesPerSecond = mps,
          averageDeserializeTime = averageDecodeTime adapterMetrics,
          maxDeserializeTime = dm_maxDecodeTime adapterMetrics,
          minDeserializeTime = dm_minDecodeTime adapterMetrics,
          isConnected = ws_open,
          connectionUptime = uptime * 1000,
          pm_reconnectAttempts = reconnectAttempts s\<rparr>)"

text \<open>\<open>trackPerformance\<close>: count, push the sample, drop the oldest beyond the capacity.\<close>

definition trackPerformance :: "int \<Rightarrow> bool \<Rightarrow> nat \<Rightarrow> int \<Rightarrow> consumer \<Rightarrow> consumer" where
  "trackPerformance now ws_open byteSize latency s0 =
     (let s1 = s0\<lparr>messagesReceived := messagesReceived s0 + 1,
                  bytesReceived := bytesReceived s0 + byteSize\<rparr>;
          pushed = latencySamples s1 @ [latency];
          s2 = s1\<lparr>latencySamples := (if length pushed > MAX_SAMPLES then tl pushed else pushed)\<rparr>
      in s2\<lparr>performanceMetricsAtom := Some (calculateMetrics now ws_open s2)\<rparr>)"

text \<open>
  \<open>handleBinaryMessage\<close>: an error raised by \<open>decode\<close> is caught and logged, and nothing
  else happens; otherwise the latency is the receive time minus the frame's timestamp.
  Of \<open>updateCryptoState\<close> the write to \<open>allCryptosAtom\<close> is modelled (the per-symbol
  atoms and the price history belong to the presentation layer).
\<close>

definition handleBinaryMessage ::
  "generated \<Rightarrow> rat \<Rightarrow> int \<Rightarrow> bool \<Rightarrow> byte list \<Rightarrow> int \<Rightarrow> consumer \<Rightarrow> consumer"
where
  "handleBinaryMessage fb decodeTime now ws_open buffer receiveTime s =
     (case decode fb decodeTime buffer (decoder s) of
        (Inl e, d) \<Rightarrow> s\<lparr>decoder := d\<rparr>
      | (Inr worldState, d) \<Rightarrow>
          (let serverTimestamp = int (vm_timestamp worldState);
               latency = receiveTime - serverTimestamp;
               s1 = s\<lparr>decoder := d, allCryptosAtom := vm_cryptos worldState\<rparr>
           in trackPerformance now ws_open (length buffer) latency s1))"

text \<open>
  What can happen to the manager: calls of its public methods, events of a socket it
  installed its handlers on, and a timeout firing. A timeout that is not pending (it was
  cleared, or it fired before) does nothing; a pending one runs \<open>connect(this.url)\<close>.
  \<open>handleTextMessage\<close> only logs, so a text message leaves the state as it is.
\<close>

datatype event =
    Connect string bool
  | Disconnect
  | OnOpen int
  | OnError
  | OnClose nat
  | OnBinary rat int bool "byte list" int
  | OnText string
  | TimerFired nat bool

definition fire :: "nat \<Rightarrow> bool \<Rightarrow> consumer \<Rightarrow> consumer" where
  "fire h throws s =
     (if h \<in> fst ` set (pendingTimeouts s)
      then connect (url s) throws (clearTimeout h s)
      else s)"

fun step :: "generated \<Rightarrow> event \<Rightarrow> consumer \<Rightarrow> consumer" where
  "step fb (Connect u throws) s = connect u throws s"
| "step fb Disconnect s = disconnect s"
| "step fb (OnOpen now) s = onopen now s"
| "step fb OnError s = onerror s"
| "step fb (OnClose code) s = onclose code s"
| "step fb (OnBinary decodeTime now ws_open buffer receiveTime) s =
     handleBinaryMessage fb decodeTime now ws_open buffer receiveTime s"
| "step fb (OnText text) s = s"
| "step fb (TimerFired h throws) s = fire h throws s"

fun run :: "generated \<Rightarrow> event list \<Rightarrow> consumer \<Rightarrow> consumer" where
  "run fb [] s = s"
| "run fb (e # es) s = run fb es (step fb e s)"

section \<open>Producer: the frame encoder (backend FlatBuffersAdapter)\<close>

text \<open>
  Static fields of the backend \<open>FlatBuffersAdapter\<close>. The counters are exact integers
  (a JavaScript number is, below \<open>2^53\<close>).
\<close>

record EncoderStats =
  frameCounter :: nat
  totalEncodeTime :: rat
  totalEncoded :: nat

definition Encoder_initial :: EncoderStats where
  "Encoder_initial = \<lparr>frameCounter = 0, totalEncodeTime = 0, totalEncoded = 0\<rparr>"

text \<open>
  \<open>encode(cryptos)\<close>: the result is the root table handed to the FlatBuffers builder
  (the bytes are the builder's serialisation of it; the builder is library code).
  \<open>now\<close> is \<open>Date.now()\<close>, \<open>encodeTime\<close> the measured duration.
\<close>

definition encode ::
  "int \<Rightarrow> rat \<Rightarrow> CryptoData list \<Rightarrow> EncoderStats \<Rightarrow> WorldState \<times> EncoderStats"
where
  "encode now encodeTime cs e =
     (\<lparr>cryptos = cs, frameId = frameCounter e, timestamp = now, totalCryptos = length cs\<rparr>,
      e\<lparr>frameCounter := frameCounter e + 1,
        totalEncodeTime := totalEncodeTime e + encodeTime,
        totalEncoded := totalEncoded e + 1\<rparr>)"

record EncoderMetrics =
  averageEncodeTime :: rat
  em_totalEncoded :: nat
  currentFrameId :: nat

definition Encoder_getMetrics :: "EncoderStats \<Rightarrow> EncoderMetrics" where
  "Encoder_getMetrics e =
     \<lparr>averageEncodeTime =
        (if totalEncoded e > 0 then totalEncodeTime e / rat_of_nat (totalEncoded e) else 0),
      em_totalEncoded = totalEncoded e,
      currentFrameId = frameCounter e\<rparr>"

definition Encoder_resetMetrics :: "EncoderStats \<Rightarrow> EncoderStats" where
  "Encoder_resetMetrics e = e\<lparr>totalEncodeTime := 0, totalEncoded := 0, frameCounter := 0\<rparr>"

text \<open>
  A sequence of \<open>encode\<close> calls, each with its time, its duration and its records; the
  frames come out in call order.
\<close>

fun encode_all ::
  "(int \<times> rat \<times> CryptoData list) list \<Rightarrow> EncoderStats \<Rightarrow> WorldState list \<times> EncoderStats"
where
  "encode_all [] e = ([], e)"
| "encode_all ((now, encodeTime, cs) # calls) e =
     (case encode now encodeTime cs e of
        (frame, e1) \<Rightarrow> (case encode_all calls e1 of (frames, e2) \<Rightarrow> (frame # frames, e2)))"

section \<open>Producer: the market data source (CryptoDataService)\<close>

text \<open>
  The cache is a \<open>Map\<close> from symbol to record, in insertion order. \<open>rnd i\<close> is
  the result of the \<open>i\<close>-th call of \<open>Math.random()\<close> made by one call of
  \<open>getCurrentPrices\<close> (one per record).
\<close>

definition randomBetween :: "rat \<Rightarrow> rat \<Rightarrow> rat \<Rightarrow> rat" where
  "randomBetween random lo hi = random * (hi - lo) + lo"

definition randomChange :: "rat \<Rightarrow> rat \<Rightarrow> rat \<Rightarrow> rat" where
  "randomChange random lo hi = randomBetween random lo hi"

definition getCurrentPrices ::
  "(nat \<Rightarrow> rat) \<Rightarrow> int \<Rightarrow> (string \<times> CryptoData) list \<Rightarrow> CryptoData list"
where
  "getCurrentPrices rnd now cache =
     map (\<lambda>(i, c).
            (let microVariation = 1 + randomChange (rnd i) (- (5 / 100)) (5 / 100) / 100
             in c\<lparr>price := price c * microVariation, lastUpdated := now\<rparr>))
         (enumerate 0 (map snd cache))"

text \<open>\<open>symbols.includes(x)\<close>.\<close>

fun array_includes :: "'a list \<Rightarrow> 'a \<Rightarrow> bool" where
  "array_includes [] x = False"
| "array_includes (y # ys) x = (if y = x then True else array_includes ys x)"

definition getFilteredPrices ::
  "(nat \<Rightarrow> rat) \<Rightarrow> int \<Rightarrow> (string \<times> CryptoData) list \<Rightarrow> string list \<Rightarrow> CryptoData list"
where
  "getFilteredPrices rnd now cache syms =
     (if length syms = 0 then getCurrentPrices rnd now cache
      else filter (\<lambda>crypto. array_includes syms (symbol crypto)) (getCurrentPrices rnd now cache))"

section \<open>Control messages (types/commands.ts)\<close>

text \<open>
  A parsed JSON value; an object is the list of its properties, each key once.
  Reading a property gives \<open>undefined\<close> (\<open>None\<close>) when it is absent. A number that
  \<open>JSON.parse\<close> yields is a finite number, negative zero (from \<open>-0\<close>) or an
  infinity (from a literal beyond the range of a double, such as \<open>1e999\<close>).
\<close>

datatype json_number = JFinite rat | JNegZero | JPosInfinity | JNegInfinity

datatype json =
    JNull
  | JBool bool
  | JNum json_number
  | JStr string
  | JArr "json list"
  | JObj "(string \<times> json) list"

fun truthy :: "json \<Rightarrow> bool" where
  "truthy JNull = False"
| "truthy (JBool b) = b"
| "truthy (JNum n) = (n \<noteq> JFinite 0 \<and> n \<noteq> JNegZero)"
| "truthy (JStr s) = (s \<noteq> [])"
| "truthy (JArr xs) = True"
| "truthy (JObj kvs) = True"

text \<open>\<open>typeof data === "object"\<close>.\<close>

fun typeof_object :: "json \<Rightarrow> bool" where
  "typeof_object JNull = True"
| "typeof_object (JArr xs) = True"
| "typeof_object (JObj kvs) = True"
| "typeof_object v = False"

fun get_property :: "json \<Rightarrow> string \<Rightarrow> json option" where
  "get_property (JObj kvs) k = map_of kvs k"
| "get_property v k = None"

fun typeof_string :: "json option \<Rightarrow> bool" where
  "typeof_string (Some (JStr s)) = True"
| "typeof_string v = False"

definition isClientCommand :: "json \<Rightarrow> bool" where
  "isClientCommand data =
     (truthy data \<and> typeof_object data \<and> typeof_string (get_property data ''type'') \<and>
      get_property data ''payload'' \<noteq> None)"

definition isFilterCoinsCommand :: "json \<Rightarrow> bool" where
  "isFilterCoinsCommand cmd = (get_property cmd ''type'' = Some (JStr ''FILTER_COINS''))"

definition isChangeFrequencyCommand :: "json \<Rightarrow> bool" where
  "isChangeFrequencyCommand cmd = (get_property cmd ''type'' = Some (JStr ''CHANGE_FREQUENCY''))"

definition isGetMetricsCommand :: "json \<Rightarrow> bool" where
  "isGetMetricsCommand cmd = (get_property cmd ''type'' = Some (JStr ''GET_METRICS''))"

text \<open>
  The responses. \<open>Resp_ERROR message code\<close> is \<open>{type: "ERROR", payload: {message,
  code}}\<close>, the code \<open>None\<close> when \<open>sendError\<close> is called without one.
\<close>

datatype ServerResponse =
    Resp_FILTER_APPLIED "string list" int
  | Resp_FREQUENCY_CHANGED json_number int
  | Resp_METRICS nat rat nat int
  | Resp_ERROR string "string option"

text \<open>
  The payload fields as their TypeScript interfaces declare them: \<open>symbols\<close> an array
  of strings, \<open>frequency\<close> a number. The literal type \<open>10 | 20 | 30\<close> of
  \<open>frequency\<close> is not checked by anything at run time, so any number is read.
\<close>

fun as_strings :: "json list \<Rightarrow> string list option" where
  "as_strings [] = Some []"
| "as_strings (JStr s # vs) = (case as_strings vs of None \<Rightarrow> None | Some ss \<Rightarrow> Some (s # ss))"
| "as_strings (v # vs) = None"

fun payload_symbols :: "json option \<Rightarrow> string list option" where
  "payload_symbols (Some (JArr vs)) = as_strings vs"
| "payload_symbols v = None"

fun payload_frequency :: "json option \<Rightarrow> json_number option" where
  "payload_frequency (Some (JNum f)) = Some f"
| "payload_frequency v = None"

section \<open>Producer: the stream dispatcher (CryptoWebSocketServer)\<close>

record ClientFilter =
  symbols :: "string list"
  frequency :: json_number

text \<open>
  The period of an interval, \<open>1000 / frequency\<close> as JavaScript computes it, is kept as
  that quotient of the frequency it was computed from.
\<close>

datatype interval_ms = Quotient_1000 json_number

record ClientConnection =
  client_filter :: ClientFilter
  connectedAt :: int
  messagesSent :: nat

datatype outgoing = Text ServerResponse | Binary WorldState

text \<open>
  The state of the producer. Sockets and interval timers are handles. \<open>clients\<close> holds
  the keys of the \<open>clients\<close> map and \<open>client_objects\<close> the \<open>ClientConnection\<close>
  object made for each socket (an interval callback keeps its object also after the key
  has left the map). \<open>updateIntervals\<close> is the map of that name. Then the counters, the
  data service's cache and the encoder's static fields; then the runtime: the intervals
  that are active (handle, socket, period in ms), the next interval handle, the sockets
  whose \<open>readyState\<close> is \<open>OPEN\<close>, and everything sent so far (socket and payload, oldest
  first).
\<close>

record producer =
  clients :: "nat list"
  client_objects :: "(nat \<times> ClientConnection) list"
  updateIntervals :: "(nat \<times> nat) list"
  totalMessagesSent :: nat
  totalBytesSent :: nat
  serverStartTime :: int
  cryptoCache :: "(string \<times> CryptoData) list"
  encoder :: EncoderStats
  activeIntervals :: "(nat \<times> nat \<times> interval_ms) list"
  nextInterval :: nat
  openSockets :: "nat list"
  sent :: "(nat \<times> outgoing) list"

definition DEFAULT_FREQUENCY :: json_number where "DEFAULT_FREQUENCY = JFinite 10"

definition producer_initial :: "int \<Rightarrow> (string \<times> CryptoData) list \<Rightarrow> producer" where
  "producer_initial start cache =
     \<lparr>clients = [], client_objects = [], updateIntervals = [],
      totalMessagesSent = 0, totalBytesSent = 0, serverStartTime = start,
      cryptoCache = cache, encoder = Encoder_initial,
      activeIntervals = [], nextInterval = 1, openSockets = [], sent = []\<rparr>"

text \<open>\<open>clients.get(ws)\<close>.\<close>

definition clients_get :: "producer \<Rightarrow> nat \<Rightarrow> ClientConnection option" where
  "clients_get s w = (if w \<in> set (clients s) then map_of (client_objects s) w else None)"

definition sendResponse :: "nat \<Rightarrow> ServerResponse \<Rightarrow> producer \<Rightarrow> producer" where
  "sendResponse w response s =
     (if w \<in> set (openSockets s) then s\<lparr>sent := sent s @ [(w, Text response)]\<rparr> else s)"

definition sendError :: "nat \<Rightarrow> string \<Rightarrow> string option \<Rightarrow> producer \<Rightarrow> producer" where
  "sendError w message code s = sendResponse w (Resp_ERROR message code) s"

definition clearInterval :: "nat \<Rightarrow> producer \<Rightarrow> producer" where
  "clearInterval h s = s\<lparr>activeIntervals := AList.delete h (activeIntervals s)\<rparr>"

text \<open>
  \<open>startDataStream(ws, client)\<close>: the period is computed from the client's frequency
  when the stream starts; the callback is \<open>tick\<close> below.
\<close>

definition startDataStream :: "nat \<Rightarrow> ClientConnection \<Rightarrow> producer \<Rightarrow> producer" where
  "startDataStream w client s =
     (let intervalMs = Quotient_1000 (frequency (client_filter client));
          h = nextInterval s
      in s\<lparr>activeIntervals := activeIntervals s @ [(h, (w, intervalMs))],
           nextInterval := h + 1,
           updateIntervals := AList.update w h (updateIntervals s)\<rparr>)"

text \<open>
  The interval callback with handle \<open>h\<close>. A cleared interval does not fire. The callback
  reads the filter of its client object at each tick (every interval is started for a
  socket whose client object exists; where there is none the state is left as it is).
  \<open>byte_length\<close> is the size of the built buffer (\<open>binaryData.length\<close>).
\<close>

definition tick ::
  "(WorldState \<Rightarrow> nat) \<Rightarrow> nat \<Rightarrow> int \<Rightarrow> rat \<Rightarrow> (nat \<Rightarrow> rat) \<Rightarrow> producer \<Rightarrow> producer"
where
  "tick byte_length h now encodeTime rnd s =
     (case map_of (activeIntervals s) h of
        None \<Rightarrow> s
      | Some (w, intervalMs) \<Rightarrow>
          if w \<notin> set (openSockets s) then clearInterval h s
          else
            (case map_of (client_objects s) w of
               None \<Rightarrow> s
             | Some client \<Rightarrow>
                 (let cs = (if length (symbols (client_filter client)) > 0
                            then getFilteredPrices rnd now (cryptoCache s)
                                   (symbols (client_filter client))
                            else getCurrentPrices rnd now (cryptoCache s));
                      (binaryData, e1) = encode now encodeTime cs (encoder s)
                  in s\<lparr>encoder := e1,
                       sent := sent s @ [(w, Binary binaryData)],
                       client_objects :=
                         AList.update w (client\<lparr>messagesSent := messagesSent client + 1\<rparr>)
                           (client_objects s),
                       totalMessagesSent := totalMessagesSent s + 1,
                       totalBytesSent := totalBytesSent s + byte_length binaryData\<rparr>)))"

definition calculateMessagesPerSecond :: "int \<Rightarrow> producer \<Rightarrow> rat" where
  "calculateMessagesPerSecond now s =
     (let uptime = rat_of_int (now - serverStartTime s) / 1000
      in if uptime > 0 then rat_of_nat (totalMessagesSent s) / uptime else 0)"

text \<open>
  What a handler does: it returns, or it raises after having changed the state, or the
  message is outside this model (a payload field that is not of the kind its interface
  declares).
\<close>

datatype 'a outcome = Returned 'a | Raised js_exception 'a | OutsideModel

text \<open>
  \<open>command.payload.field\<close>: reading a property of \<open>null\<close> or \<open>undefined\<close> raises a
  \<open>TypeError\<close>.
\<close>

definition payload_field :: "json \<Rightarrow> string \<Rightarrow> js_exception + json option" where
  "payload_field command field =
     (case get_property command ''payload'' of
        None \<Rightarrow> Inl (Thrown ''TypeError'')
      | Some JNull \<Rightarrow> Inl (Thrown ''TypeError'')
      | Some p \<Rightarrow> Inr (get_property p field))"

definition set_client :: "nat \<Rightarrow> ClientConnection \<Rightarrow> producer \<Rightarrow> producer" where
  "set_client w client s = s\<lparr>client_objects := AList.update w client (client_objects s)\<rparr>"

text \<open>\<open>handleCommand(ws, command)\<close>; \<open>now\<close> is \<open>Date.now()\<close>.\<close>

definition handleCommand :: "nat \<Rightarrow> json \<Rightarrow> int \<Rightarrow> producer \<Rightarrow> producer outcome" where
  "handleCommand w command now s =
     (case clients_get s w of
        None \<Rightarrow> Returned s
      | Some client \<Rightarrow>
          if isFilterCoinsCommand command then
            (case payload_field command ''symbols'' of
               Inl e \<Rightarrow> Raised e s
             | Inr v \<Rightarrow>
                 (case payload_symbols v of
                    None \<Rightarrow> OutsideModel
                  | Some syms \<Rightarrow>
                      (let client1 = client\<lparr>client_filter := (client_filter client)\<lparr>symbols := syms\<rparr>\<rparr>;
                           s1 = set_client w client1 s
                       in Returned (sendResponse w (Resp_FILTER_APPLIED syms now) s1))))
          else if isChangeFrequencyCommand command then
            (case payload_field command ''frequency'' of
               Inl e \<Rightarrow> Raised e s
             | Inr v \<Rightarrow>
                 (case payload_frequency v of
                    None \<Rightarrow> OutsideModel
                  | Some f \<Rightarrow>
                      (let client1 = client\<lparr>client_filter := (client_filter client)\<lparr>frequency := f\<rparr>\<rparr>;
                           s1 = set_client w client1 s;
                           s2 = (case map_of (updateIntervals s1) w of
                                   None \<Rightarrow> s1
                                 | Some oldInterval \<Rightarrow> clearInterval oldInterval s1);
                           s3 = startDataStream w client1 s2
                       in Returned (sendResponse w (Resp_FREQUENCY_CHANGED f now) s3))))
          else if isGetMetricsCommand command then
            Returned
              (sendResponse w
                 (Resp_METRICS (length (clients s)) (calculateMessagesPerSecond now s)
                    (totalMessagesSent s) (now - serverStartTime s)) s)
          else Returned s)"

text \<open>
  \<open>handleMessage(ws, data)\<close> on the text of the message. \<open>JSON.parse\<close> is the
  parameter \<open>json_parse\<close> (\<open>None\<close> when it raises). Whatever is raised inside the
  \<open>try\<close> block is answered with \<open>"Failed to parse message"\<close>.
\<close>

definition startsWith_brace :: "string \<Rightarrow> bool" where
  "startsWith_brace t = (case t of [] \<Rightarrow> False | c # cs \<Rightarrow> c = CHR ''{'')"

definition handleMessage ::
  "(string \<Rightarrow> json option) \<Rightarrow> nat \<Rightarrow> string \<Rightarrow> int \<Rightarrow> producer \<Rightarrow> producer outcome"
where
  "handleMessage json_parse w t now s =
     (if startsWith_brace t then
        (case json_parse t of
           None \<Rightarrow> Returned (sendError w ''Failed to parse message'' None s)
         | Some message \<Rightarrow>
             if isClientCommand message then
               (case handleCommand w message now s of
                  Returned s1 \<Rightarrow> Returned s1
                | Raised e s1 \<Rightarrow> Returned (sendError w ''Failed to parse message'' None s1)
                | OutsideModel \<Rightarrow> OutsideModel)
             else Returned (sendError w ''Invalid command format'' None s))
      else Returned s)"

text \<open>\<open>handleConnection(ws)\<close> for a new socket, which is open.\<close>

definition handleConnection :: "nat \<Rightarrow> int \<Rightarrow> producer \<Rightarrow> producer" where
  "handleConnection w now s0 =
     (let client = \<lparr>client_filter = \<lparr>symbols = [], frequency = DEFAULT_FREQUENCY\<rparr>,
                     connectedAt = now, messagesSent = 0\<rparr>;
          s1 = (set_client w client s0)
                 \<lparr>clients := (if w \<in> set (clients s0) then clients s0 else clients s0 @ [w])\<rparr>;
          s2 = startDataStream w client s1
      in sendResponse w
           (Resp_METRICS (length (clients s2)) 0 (totalMessagesSent s2)
              (now - serverStartTime s2)) s2)"

definition handleDisconnect :: "nat \<Rightarrow> producer \<Rightarrow> producer" where
  "handleDisconnect w s0 =
     (let s1 = (case map_of (updateIntervals s0) w of
                  None \<Rightarrow> s0
                | Some interval \<Rightarrow>
                    (clearInterval interval s0)
                      \<lparr>updateIntervals := AList.delete w (updateIntervals s0)\<rparr>)
      in s1\<lparr>clients := removeAll w (clients s1)\<rparr>)"

text \<open>
  What can happen to the dispatcher: a connection of a new open socket, a message, the
  close and error events of a socket, a socket leaving the \<open>OPEN\<close> state, and an
  interval firing.
\<close>

datatype producer_event =
    Connection nat int
  | Message nat string int
  | Close nat
  | Error nat
  | NotOpen nat
  | Tick nat int rat "nat \<Rightarrow> rat"

fun producer_step ::
  "(string \<Rightarrow> json option) \<Rightarrow> (WorldState \<Rightarrow> nat) \<Rightarrow> producer_event \<Rightarrow> producer \<Rightarrow> producer outcome"
where
  "producer_step json_parse byte_length (Connection w now) s =
     Returned (handleConnection w now (s\<lparr>openSockets := w # openSockets s\<rparr>))"
| "producer_step json_parse byte_length (Message w t now) s = handleMessage json_parse w t now s"
| "producer_step json_parse byte_length (Close w) s =
     Returned (handleDisconnect w (s\<lparr>openSockets := removeAll w (openSockets s)\<rparr>))"
| "producer_step json_parse byte_length (Error w) s = Returned (handleDisconnect w s)"
| "producer_step json_parse byte_length (NotOpen w) s =
     Returned (s\<lparr>openSockets := removeAll w (openSockets s)\<rparr>)"
| "producer_step json_parse byte_length (Tick h now encodeTime rnd) s =
     Returned (tick byte_length h now encodeTime rnd s)"

fun producer_run ::
  "(string \<Rightarrow> json option) \<Rightarrow> (WorldState \<Rightarrow> nat) \<Rightarrow> producer_event list \<Rightarrow> producer \<Rightarrow> producer outcome"
where
  "producer_run json_parse byte_length [] s = Returned s"
| "producer_run json_parse byte_length (e # es) s =
     (case producer_step json_parse byte_length e s of
        Returned s1 \<Rightarrow> producer_run json_parse byte_length es s1
      | Raised x s1 \<Rightarrow> Raised x s1
      | OutsideModel \<Rightarrow> OutsideModel)"

text \<open>The frames sent so far, oldest first.\<close>

fun frames_of :: "(nat \<times> outgoing) list \<Rightarrow> WorldState list" where
  "frames_of [] = []"
| "frames_of ((w, Binary frame) # rest) = frame # frames_of rest"
| "frames_of ((w, Text r) # rest) = frames_of rest"

section \<open>Definitions used to state the properties\<close>

subsection \<open>Percentiles\<close>

text \<open>
  The percentile as the specification words it: sort a copy ascending, take the element
  at index \<open>floor(p * count)\<close> clamped to \<open>[0, count - 1]\<close>, or \<open>0\<close> if empty.
\<close>

definition spec_percentile :: "rat \<Rightarrow> int list \<Rightarrow> int" where
  "spec_percentile p samples =
     (let sorted = sort samples; count = length sorted
      in if count = 0 then 0
         else sorted ! nat (max 0 (min \<lfloor>p * rat_of_nat count\<rfloor> (int count - 1))))"

text \<open>The sample set \<open>[10, 20, 30, ..., 1000]\<close>.\<close>

definition sample_set_100 :: "int list" where
  "sample_set_100 = map (\<lambda>k. 10 * (int k + 1)) [0..<100]"

subsection \<open>Reconnection\<close>

text \<open>The doubling sequence base, 2 x base, 4 x base, ... capped, for base 2000 and cap 30000.\<close>

definition spec_backoff_delay :: "nat \<Rightarrow> nat" where
  "spec_backoff_delay k = min (2000 * 2 ^ k) 30000"

fun is_open :: "event \<Rightarrow> bool" where
  "is_open (OnOpen now) = True"
| "is_open e = False"

text \<open>
  A connection failure: a close event with a code other than 1000, a call of
  \<open>connect\<close> in which the constructor raises, and a pending timeout firing into such a
  call. \<open>failures\<close> counts them along a run.
\<close>

fun connection_failure :: "event \<Rightarrow> consumer \<Rightarrow> bool" where
  "connection_failure (OnClose code) s = (code \<noteq> 1000)"
| "connection_failure (Connect u throws) s = throws"
| "connection_failure (TimerFired h throws) s = (throws \<and> h \<in> fst ` set (pendingTimeouts s))"
| "connection_failure e s = False"

fun failures :: "generated \<Rightarrow> event list \<Rightarrow> consumer \<Rightarrow> nat" where
  "failures fb [] s = 0"
| "failures fb (e # es) s =
     (if connection_failure e s then 1 else 0) + failures fb es (step fb e s)"

text \<open>
  What may follow a local \<open>disconnect()\<close> when \<open>connect()\<close> is not called again and the
  transport reports the closure as the normal one: further \<open>disconnect()\<close> calls, the
  close event with code 1000, messages still in flight, and any timer handle firing.
\<close>

fun quiet_after_disconnect :: "event \<Rightarrow> bool" where
  "quiet_after_disconnect (Connect u throws) = False"
| "quiet_after_disconnect Disconnect = True"
| "quiet_after_disconnect (OnOpen now) = False"
| "quiet_after_disconnect OnError = False"
| "quiet_after_disconnect (OnClose code) = (code = 1000)"
| "quiet_after_disconnect (OnBinary decodeTime now ws_open buffer receiveTime) = True"
| "quiet_after_disconnect (OnText t) = True"
| "quiet_after_disconnect (TimerFired h throws) = True"

text \<open>Every pending timeout is the one whose handle the manager holds.\<close>

definition timers_owned :: "consumer \<Rightarrow> bool" where
  "timers_owned s = (fst ` set (pendingTimeouts s) \<subseteq> set_option (reconnectTimeout s))"

definition at_rest :: "consumer \<Rightarrow> bool" where
  "at_rest s =
     (connectionStatusAtom s = DISCONNECTED \<and> pendingTimeouts s = [] \<and>
      reconnectTimeout s = None \<and> ws s = None)"

subsection \<open>Decoding\<close>

text \<open>
  The accessors as \<open>flatc\<close> generates them when the fields are declared in the order of
  the README and of the view model: the slots are \<open>4, 6, 8, ...\<close> in that order. The text
  decoder of the examples takes every byte for the character of that code, as UTF-8
  does below 128.
\<close>

definition example_text_decoder :: "byte list \<Rightarrow> string" where
  "example_text_decoder bs = map (\<lambda>b. char_of (unat b)) bs"

definition crypto_fbs :: generated where
  "crypto_fbs =
     \<lparr>text_decoder = example_text_decoder,
      vt_cryptos = 4, vt_frame_id = 6, vt_timestamp = 8, vt_total_cryptos = 10,
      vt_symbol = 4, vt_name = 6, vt_price = 8, vt_price_change_24h = 10,
      vt_market_cap = 12, vt_volume_24h = 14, vt_high_24h = 16, vt_low_24h = 18,
      vt_last_updated = 20\<rparr>"

text \<open>The view model of a table without fields, and of a \<open>Crypto\<close> without fields.\<close>

definition empty_world :: WorldStateViewModel where
  "empty_world = \<lparr>vm_cryptos = [], vm_frameId = 0, vm_timestamp = 0, vm_totalCryptos = 0\<rparr>"

definition empty_crypto :: CryptoViewModel where
  "empty_crypto =
     \<lparr>vm_symbol = [], vm_name = [], vm_price = 0, vm_priceChange24h = 0, vm_marketCap = 0,
      vm_volume24h = 0, vm_high24h = 0, vm_low24h = 0, vm_lastUpdated = 0\<rparr>"

text \<open>
  A message of 24 bytes: the root offset 12; a vtable of 6 bytes at position 4 whose one
  slot (slot 4, \<open>cryptos\<close>) holds the field offset 4; the table at position 12, which
  points 8 bytes back to its vtable; at position 16 the offset 4 to the vector; and at
  position 20 the length of the vector, \<open>0x7FFFFFFF\<close>. The message ends there.
\<close>

definition length_bomb :: "byte list" where
  "length_bomb =
     [12, 0, 0, 0,  6, 0, 0, 0,  4, 0, 0, 0,  8, 0, 0, 0,  4, 0, 0, 0,  255, 255, 255, 127]"

subsection \<open>Filtering and frames\<close>

text \<open>
  The filter as the specification words it: an empty symbol set returns the records
  unmodified, a non-empty one exactly the records whose symbol is in it, in source order.
\<close>

definition spec_apply_filter :: "string list \<Rightarrow> CryptoData list \<Rightarrow> CryptoData list" where
  "spec_apply_filter syms records =
     (if set syms = {} then records else filter (\<lambda>r. symbol r \<in> set syms) records)"

text \<open>
  The frames sent carry the identifiers \<open>0, 1, 2, ...\<close> in the order sent, the encoder
  has counted as many encodes as its frame counter says, and every frame's record count
  is the number of records in it.
\<close>

definition frames_numbered :: "producer \<Rightarrow> bool" where
  "frames_numbered s =
     (map frameId (frames_of (sent s)) = [0..<frameCounter (encoder s)] \<and>
      totalEncoded (encoder s) = frameCounter (encoder s) \<and>
      list_all (\<lambda>f. totalCryptos f = length (cryptos f)) (frames_of (sent s)))"

subsection \<open>Commands\<close>

text \<open>\<open>{"type": "CHANGE_FREQUENCY", "payload": {"frequency": f}}\<close>.\<close>

definition change_frequency_command :: "json_number \<Rightarrow> json" where
  "change_frequency_command f =
     JObj [(''type'', JStr ''CHANGE_FREQUENCY''), (''payload'', JObj [(''frequency'', JNum f)])]"

text \<open>\<open>{"type": "FILTER_COINS", "payload": {"symbols": [...]}}\<close>.\<close>

definition filter_coins_command :: "string list \<Rightarrow> json" where
  "filter_coins_command syms =
     JObj [(''type'', JStr ''FILTER_COINS''), (''payload'', JObj [(''symbols'', JArr (map JStr syms))])]"

text \<open>\<open>{"type": "FOO", "payload": {}}\<close> and \<open>{"type": "FOO"}\<close>.\<close>

definition unknown_command :: json where
  "unknown_command = JObj [(''type'', JStr ''FOO''), (''payload'', JObj [])]"

definition unknown_without_payload :: json where
  "unknown_without_payload = JObj [(''type'', JStr ''FOO'')]"

text \<open>A \<open>JSON.parse\<close> that yields the given value.\<close>

definition parse_as :: "json \<Rightarrow> string \<Rightarrow> json option" where
  "parse_as message t = Some message"

text \<open>
  Every active interval is the one recorded for its socket in \<open>updateIntervals\<close>, and
  its handle has been issued.
\<close>

definition intervals_owned :: "producer \<Rightarrow> bool" where
  "intervals_owned s =
     list_all (\<lambda>(h, w, p). map_of (updateIntervals s) w = Some h \<and> h < nextInterval s)
       (activeIntervals s)"

text \<open>The active intervals of a socket.\<close>

definition intervals_of :: "nat \<Rightarrow> producer \<Rightarrow> (nat \<times> nat \<times> interval_ms) list" where
  "intervals_of w s = filter (\<lambda>(h, w', p). w' = w) (activeIntervals s)"

text \<open>
  A run in which every connection event brings a socket that has not connected before
  (a new \<open>WebSocket\<close> object).
\<close>

fun new_socket :: "producer_event \<Rightarrow> producer \<Rightarrow> bool" where
  "new_socket (Connection w now) s = (map_of (client_objects s) w = None)"
| "new_socket e s = True"

fun new_sockets ::
  "(string \<Rightarrow> json option) \<Rightarrow> (WorldState \<Rightarrow> nat) \<Rightarrow> producer_event list \<Rightarrow> producer \<Rightarrow> bool"
where
  "new_sockets json_parse byte_length [] s = True"
| "new_sockets json_parse byte_length (e # es) s =
     (new_socket e s \<and>
      (case producer_step json_parse byte_length e s of
         Returned s1 \<Rightarrow> new_sockets json_parse byte_length es s1
       | Raised x s1 \<Rightarrow> True
       | OutsideModel \<Rightarrow> True))"

text \<open>The active intervals are owned, and each belongs to a socket that has a client object.\<close>

definition intervals_known :: "producer \<Rightarrow> bool" where
  "intervals_known s =
     (intervals_owned s \<and>
      list_all (\<lambda>(h, w, p). map_of (client_objects s) w \<noteq> None) (activeIntervals s))"

text \<open>Every socket with a client object in the first state has one in the second.\<close>

definition objects_kept :: "producer \<Rightarrow> producer \<Rightarrow> bool" where
  "objects_kept s s' = (\<forall>x. map_of (client_objects s) x \<noteq> None \<longrightarrow> map_of (client_objects s') x \<noteq> None)"

subsection \<open>Example states\<close>

definition example_cache :: "(string \<times> CryptoData) list" where
  "example_cache =
     [(''BTC'', \<lparr>symbol = ''BTC'', name = ''Bitcoin'', price = 45000, priceChange24h = 2,
                marketCap = 1, volume24h = 1, high24h = 46000, low24h = 44000, lastUpdated = 0\<rparr>),
      (''ETH'', \<lparr>symbol = ''ETH'', name = ''Ethereum'', price = 2500, priceChange24h = - 1,
                marketCap = 1, volume24h = 1, high24h = 2600, low24h = 2400, lastUpdated = 0\<rparr>),
      (''SOL'', \<lparr>symbol = ''SOL'', name = ''Solana'', price = 95, priceChange24h = 0,
                marketCap = 1, volume24h = 1, high24h = 99, low24h = 90, lastUpdated = 0\<rparr>)]"

definition example_byte_length :: "WorldState \<Rightarrow> nat" where
  "example_byte_length frame = 64 + 96 * length (cryptos frame)"

definition half :: "nat \<Rightarrow> rat" where
  "half i = 1 / 2"

text \<open>A producer with one connected client, socket 1, connected at time 0.\<close>

definition one_client :: producer where
  "one_client =
     handleConnection 1 0 ((producer_initial 0 example_cache)\<lparr>openSockets := [1]\<rparr>)"

text \<open>The same producer after a tick, a filter command for ETH, and a second tick.\<close>

definition two_ticks :: producer where
  "two_ticks =
     tick example_byte_length 1 200 1 half
       (sendResponse 1 (Resp_FILTER_APPLIED [''ETH''] 150)
          (set_client 1
             \<lparr>client_filter = \<lparr>symbols = [''ETH''], frequency = JFinite 10\<rparr>, connectedAt = 0,
              messagesSent = 1\<rparr>
             (tick example_byte_length 1 100 1 half one_client)))"

section \<open>Properties of the consumer\<close>

subsection \<open>Reconnection and disconnection: auxiliary facts\<close>

lemma backoff_double: "min (spec_backoff_delay j * 2) maxReconnectDelay = spec_backoff_delay (Suc j)"
  by (simp add: spec_backoff_delay_def maxReconnectDelay_def min_def)

lemma scheduleReconnect_delays:
  "scheduledDelays (scheduleReconnect s) = scheduledDelays s @ [currentReconnectDelay s]"
  by (simp add: scheduleReconnect_def clearTimeout_def Let_def split: option.splits)

lemma scheduleReconnect_current:
  "currentReconnectDelay (scheduleReconnect s) = min (currentReconnectDelay s * 2) maxReconnectDelay"
  by (simp add: scheduleReconnect_def clearTimeout_def Let_def split: option.splits)

lemma handleBinaryMessage_delays:
  "scheduledDelays (handleBinaryMessage fb dt now wo buf rt s) = scheduledDelays s"
  "currentReconnectDelay (handleBinaryMessage fb dt now wo buf rt s) = currentReconnectDelay s"
  by (simp_all add: handleBinaryMessage_def decode_def trackPerformance_def Let_def split: sum.splits prod.splits)

lemma handleBinaryMessage_conn:
  "connectionStatusAtom (handleBinaryMessage fb dt now wo buf rt s) = connectionStatusAtom s"
  "pendingTimeouts (handleBinaryMessage fb dt now wo buf rt s) = pendingTimeouts s"
  "reconnectTimeout (handleBinaryMessage fb dt now wo buf rt s) = reconnectTimeout s"
  "ws (handleBinaryMessage fb dt now wo buf rt s) = ws s"
  "closeCalls (handleBinaryMessage fb dt now wo buf rt s) = closeCalls s"
  by (simp_all add: handleBinaryMessage_def decode_def trackPerformance_def Let_def split: sum.splits prod.splits)

lemma scheduleReconnect_attempts:
  "reconnectAttempts (scheduleReconnect s) = reconnectAttempts s + 1"
  by (simp add: scheduleReconnect_def clearTimeout_def Let_def split: option.splits)

lemma handleBinaryMessage_attempts:
  "reconnectAttempts (handleBinaryMessage fb dt now wo buf rt s) = reconnectAttempts s"
  by (simp add: handleBinaryMessage_def decode_def trackPerformance_def Let_def
      split: sum.splits prod.splits)

lemma step_backoff:
  assumes "\<not> is_open e" "currentReconnectDelay s = spec_backoff_delay j"
  shows "scheduledDelays (step fb e s) =
           scheduledDelays s @ (if connection_failure e s then [spec_backoff_delay j] else [])"
    and "reconnectAttempts (step fb e s) =
           reconnectAttempts s + (if connection_failure e s then 1 else 0)"
    and "currentReconnectDelay (step fb e s) =
           spec_backoff_delay (j + (if connection_failure e s then 1 else 0))"
proof -
  have "scheduledDelays (step fb e s) =
           scheduledDelays s @ (if connection_failure e s then [spec_backoff_delay j] else []) \<and>
        reconnectAttempts (step fb e s) =
           reconnectAttempts s + (if connection_failure e s then 1 else 0) \<and>
        currentReconnectDelay (step fb e s) =
           spec_backoff_delay (j + (if connection_failure e s then 1 else 0))"
  proof (cases e)
    case (Connect u throws)
    then show ?thesis using assms(2)
      by (simp add: connect_def Let_def scheduleReconnect_delays scheduleReconnect_current
          scheduleReconnect_attempts backoff_double)
  next
    case Disconnect
    then show ?thesis using assms(2)
      by (simp add: disconnect_def clearTimeout_def Let_def split: option.splits)
  next
    case (OnOpen now)
    then show ?thesis using assms(1) by simp
  next
    case OnError
    then show ?thesis using assms(2) by (simp add: onerror_def)
  next
    case (OnClose code)
    then show ?thesis using assms(2)
      by (simp add: onclose_def Let_def scheduleReconnect_delays scheduleReconnect_current
          scheduleReconnect_attempts backoff_double)
  next
    case (OnBinary dt now wo buf rt)
    then show ?thesis using assms(2)
      by (simp add: handleBinaryMessage_delays handleBinaryMessage_attempts)
  next
    case (OnText t)
    then show ?thesis using assms(2) by simp
  next
    case (TimerFired h throws)
    then show ?thesis using assms(2)
      by (simp add: fire_def connect_def clearTimeout_def Let_def scheduleReconnect_delays
          scheduleReconnect_current scheduleReconnect_attempts backoff_double)
  qed
  then show "scheduledDelays (step fb e s) =
           scheduledDelays s @ (if connection_failure e s then [spec_backoff_delay j] else [])"
    and "reconnectAttempts (step fb e s) =
           reconnectAttempts s + (if connection_failure e s then 1 else 0)"
    and "currentReconnectDelay (step fb e s) =
           spec_backoff_delay (j + (if connection_failure e s then 1 else 0))"
    by simp_all
qed

lemma run_backoff:
  "list_all (\<lambda>e. \<not> is_open e) evs \<Longrightarrow> currentReconnectDelay s = spec_backoff_delay j \<Longrightarrow>
   scheduledDelays (run fb evs s) =
     scheduledDelays s @ map spec_backoff_delay [j..<j + failures fb evs s] \<and>
   reconnectAttempts (run fb evs s) = reconnectAttempts s + failures fb evs s \<and>
   currentReconnectDelay (run fb evs s) = spec_backoff_delay (j + failures fb evs s)"
proof (induction evs arbitrary: s j)
  case Nil
  then show ?case by simp
next
  case (Cons e evs)
  from Cons.prems have ne: "\<not> is_open e" and rest: "list_all (\<lambda>e. \<not> is_open e) evs"
    by simp_all
  note st = step_backoff[OF ne Cons.prems(2), of fb]
  show ?case
  proof (cases "connection_failure e s")
    case True
    from st(3) True have cur: "currentReconnectDelay (step fb e s) = spec_backoff_delay (Suc j)"
      by simp
    from Cons.IH[OF rest cur] st(1,2) True show ?thesis
      by (simp add: upt_rec[of j])
  next
    case False
    from st(3) False have cur: "currentReconnectDelay (step fb e s) = spec_backoff_delay j"
      by simp
    from Cons.IH[OF rest cur] st(1,2) False show ?thesis by simp
  qed
qed

lemma failures_replicate: "failures fb (replicate n (OnClose 1006)) s = n"
  by (induction n arbitrary: s) simp_all

lemma timers_owned_scheduleReconnect: "timers_owned s \<Longrightarrow> timers_owned (scheduleReconnect s)"
  by (auto simp: timers_owned_def scheduleReconnect_def clearTimeout_def Let_def split: option.splits)

lemma timers_owned_connect: "timers_owned s \<Longrightarrow> timers_owned (connect u throws s)"
proof -
  assume a: "timers_owned s"
  then have "timers_owned (s\<lparr>url := u, connectionStatusAtom := ERROR\<rparr>)"
    by (simp add: timers_owned_def)
  from timers_owned_scheduleReconnect[OF this] a
  show ?thesis by (simp add: connect_def Let_def) (simp add: timers_owned_def)
qed

lemma timers_owned_clearTimeout: "timers_owned s \<Longrightarrow> timers_owned (clearTimeout h s)"
  by (auto simp: timers_owned_def clearTimeout_def)

lemma timers_owned_step: "timers_owned s \<Longrightarrow> timers_owned (step fb e s)"
proof (cases e)
  case (Connect u throws)
  assume "timers_owned s"
  then show ?thesis using Connect by (simp add: timers_owned_connect)
next
  case Disconnect
  assume "timers_owned s"
  then show ?thesis using Disconnect
    by (auto simp: timers_owned_def disconnect_def clearTimeout_def Let_def split: option.splits)
next
  case (OnOpen x3)
  assume "timers_owned s"
  then show ?thesis using OnOpen by (simp add: timers_owned_def onopen_def)
next
  case OnError
  assume "timers_owned s"
  then show ?thesis using OnError by (simp add: timers_owned_def onerror_def)
next
  case (OnClose code)
  assume "timers_owned s"
  then have "timers_owned (s\<lparr>connectionStatusAtom := DISCONNECTED\<rparr>)"
    by (simp add: timers_owned_def)
  from timers_owned_scheduleReconnect[OF this] this OnClose
  show ?thesis by (simp add: onclose_def Let_def)
next
  case (OnBinary x61 x62 x63 x64 x65)
  assume "timers_owned s"
  then show ?thesis using OnBinary by (simp add: timers_owned_def handleBinaryMessage_conn)
next
  case (OnText x7)
  assume "timers_owned s"
  then show ?thesis using OnText by simp
next
  case (TimerFired h throws)
  assume "timers_owned s"
  then show ?thesis using TimerFired
    by (simp add: fire_def timers_owned_connect timers_owned_clearTimeout)
qed

lemma timers_owned_run: "timers_owned s \<Longrightarrow> timers_owned (run fb evs s)"
  by (induction evs arbitrary: s) (simp_all add: timers_owned_step)

lemma timers_owned_initial: "timers_owned consumer_initial"
  by (simp add: timers_owned_def consumer_initial_def)

lemma disconnect_at_rest: "timers_owned s \<Longrightarrow> at_rest (disconnect s)"
  by (auto simp: timers_owned_def at_rest_def disconnect_def clearTimeout_def Let_def
      filter_empty_conv split: option.splits)

lemma quiet_step:
  assumes "quiet_after_disconnect e" "at_rest s"
  shows "at_rest (step fb e s) \<and> scheduledDelays (step fb e s) = scheduledDelays s \<and>
         closeCalls (step fb e s) = closeCalls s"
  using assms
  by (cases e) (simp_all add: at_rest_def disconnect_def onclose_def fire_def
      handleBinaryMessage_conn handleBinaryMessage_delays Let_def)

lemma quiet_run:
  "list_all quiet_after_disconnect evs \<Longrightarrow> at_rest s \<Longrightarrow>
   at_rest (run fb evs s) \<and> scheduledDelays (run fb evs s) = scheduledDelays s \<and>
   closeCalls (run fb evs s) = closeCalls s"
proof (induction evs arbitrary: s)
  case Nil
  then show ?case by simp
next
  case (Cons e evs)
  from Cons.prems have q: "quiet_after_disconnect e" and qs: "list_all quiet_after_disconnect evs" by simp_all
  from quiet_step[OF q Cons.prems(2), of fb] Cons.IH[OF qs, of "step fb e s"]
  show ?case by simp
qed

lemma disconnect_closes:
  "closeCalls (disconnect s) = closeCalls s @ (case ws s of None \<Rightarrow> [] | Some w \<Rightarrow> [(w, 1000)])"
  by (simp add: disconnect_def clearTimeout_def Let_def split: option.splits)

lemma disconnect_delays: "scheduledDelays (disconnect s) = scheduledDelays s"
  by (simp add: disconnect_def clearTimeout_def Let_def split: option.splits)

subsection \<open>Percentiles\<close>

lemma floor_times_less:
  assumes "0 \<le> p" "p < 1" "0 < n"
  shows "floor_times n p < n"
proof -
  have "rat_of_nat n * p < rat_of_nat n" using assms by simp
  then have "\<lfloor>rat_of_nat n * p\<rfloor> < int n"
    by (simp add: floor_less_iff)
  moreover have "0 \<le> \<lfloor>rat_of_nat n * p\<rfloor>" using assms by simp
  ultimately show ?thesis unfolding floor_times_def by linarith
qed

lemma or_zero_Some: "or_zero (Some x) = x"
  by (simp add: or_zero_def)

lemma percentile_refines:
  assumes "0 \<le> p" "p < 1"
  shows "or_zero (js_index (sort xs) (floor_times (length (sort xs)) p)) = spec_percentile p xs"
proof (cases "xs = []")
  case True
  then show ?thesis by (simp add: spec_percentile_def js_index_def or_zero_def floor_times_def)
next
  case False
  then have n: "0 < length xs" by simp
  have lt: "floor_times (length xs) p < length xs" using floor_times_less[OF assms n] .
  have nn: "0 \<le> \<lfloor>rat_of_nat (length xs) * p\<rfloor>" using assms by simp
  have eq: "nat (max 0 (min \<lfloor>p * rat_of_nat (length xs)\<rfloor> (int (length xs) - 1))) =
            floor_times (length xs) p"
    using lt nn unfolding floor_times_def by (simp add: mult.commute)
  have ne: "sort xs \<noteq> []" using n by (metis length_greater_0_conv length_sort)
  show ?thesis using ne lt eq
    by (simp add: spec_percentile_def js_index_def or_zero_Some Let_def)
qed

lemma sort_sample_set_100: "sort sample_set_100 = sample_set_100"
  unfolding sample_set_100_def
  by (rule sorted_sort_id) (simp add: sorted_map sorted_wrt_iff_nth_less)

lemma calculateMetrics_percentiles:
  "latencyP50 (calculateMetrics now wo s) =
     or_zero (js_index (sort (latencySamples s)) (floor_times (length (sort (latencySamples s))) (1 / 2)))"
  "latencyP95 (calculateMetrics now wo s) =
     or_zero (js_index (sort (latencySamples s)) (floor_times (length (sort (latencySamples s))) (95 / 100)))"
  "latencyP99 (calculateMetrics now wo s) =
     or_zero (js_index (sort (latencySamples s)) (floor_times (length (sort (latencySamples s))) (99 / 100)))"
  by (simp_all add: calculateMetrics_def Let_def)

lemma percentiles_of_100:
  "or_zero (js_index sample_set_100 (floor_times (length sample_set_100) (1 / 2))) = sample_set_100 ! 50"
  "or_zero (js_index sample_set_100 (floor_times (length sample_set_100) (99 / 100))) = sample_set_100 ! 99"
  "sample_set_100 ! 50 = 510"
  "sample_set_100 ! 99 = 1000"
  by (simp_all add: sample_set_100_def floor_times_def js_index_def or_zero_def)

text \<open>
  C3. For every sample set the three percentiles that \<open>calculateMetrics\<close> reports are the
  specification's percentile (sort a copy ascending, index \<open>floor(p * count)\<close> clamped to
  \<open>[0, count - 1]\<close>, \<open>0\<close> for the empty set) at \<open>p = 0.5, 0.95, 0.99\<close>; and for the
  100 samples \<open>[10, 20, ..., 1000]\<close> the median is the element at index 50 of the sorted
  samples (510) and the 99th percentile the element at index 99 (1000).
\<close>

theorem percentiles_nearest_rank_floor:
  "latencyP50 (calculateMetrics now wo s) = spec_percentile (1 / 2) (latencySamples s) \<and>
   latencyP95 (calculateMetrics now wo s) = spec_percentile (95 / 100) (latencySamples s) \<and>
   latencyP99 (calculateMetrics now wo s) = spec_percentile (99 / 100) (latencySamples s) \<and>
   spec_percentile p [] = 0 \<and>
   latencyP50 (calculateMetrics now wo (s\<lparr>latencySamples := sample_set_100\<rparr>)) =
     sort sample_set_100 ! 50 \<and>
   latencyP99 (calculateMetrics now wo (s\<lparr>latencySamples := sample_set_100\<rparr>)) =
     sort sample_set_100 ! 99 \<and>
   sort sample_set_100 ! 50 = 510 \<and> sort sample_set_100 ! 99 = 1000"
proof -
  have a: "latencyP50 (calculateMetrics now wo s) = spec_percentile (1 / 2) (latencySamples s)"
    unfolding calculateMetrics_percentiles by (rule percentile_refines) simp_all
  have b: "latencyP95 (calculateMetrics now wo s) = spec_percentile (95 / 100) (latencySamples s)"
    unfolding calculateMetrics_percentiles by (rule percentile_refines) simp_all
  have c: "latencyP99 (calculateMetrics now wo s) = spec_percentile (99 / 100) (latencySamples s)"
    unfolding calculateMetrics_percentiles by (rule percentile_refines) simp_all
  have d: "spec_percentile p [] = 0" by (simp add: spec_percentile_def)
  have e: "latencyP50 (calculateMetrics now wo (s\<lparr>latencySamples := sample_set_100\<rparr>)) =
     sort sample_set_100 ! 50"
    unfolding calculateMetrics_percentiles by (simp add: sort_sample_set_100 percentiles_of_100)
  have f: "latencyP99 (calculateMetrics now wo (s\<lparr>latencySamples := sample_set_100\<rparr>)) =
     sort sample_set_100 ! 99"
    unfolding calculateMetrics_percentiles by (simp add: sort_sample_set_100 percentiles_of_100)
  have g: "sort sample_set_100 ! 50 = 510" "sort sample_set_100 ! 99 = 1000"
    by (simp_all add: sort_sample_set_100 percentiles_of_100)
  from a b c d e f g show ?thesis by simp
qed

subsection \<open>Metrics without samples\<close>

text \<open>
  C9. If no latency sample has been recorded, \<open>calculateMetrics\<close> reports \<open>0\<close> for
  \<open>latencyP50\<close>, \<open>latencyP95\<close>, \<open>latencyP99\<close>, \<open>averageLatency\<close> and \<open>minLatency\<close>.
\<close>

theorem metrics_without_samples:
  assumes "latencySamples s = []"
  shows "latencyP50 (calculateMetrics now wo s) = 0 \<and>
         latencyP95 (calculateMetrics now wo s) = 0 \<and>
         latencyP99 (calculateMetrics now wo s) = 0 \<and>
         averageLatency (calculateMetrics now wo s) = 0 \<and>
         minLatency (calculateMetrics now wo s) = Finite 0"
  using assms
  by (simp add: calculateMetrics_def Let_def js_index_def or_zero_def floor_times_def
      Math_min_def)

theorem metrics_without_samples_witness:
  "latencySamples consumer_initial = [] \<and>
   latencyP50 (calculateMetrics 5 False consumer_initial) = 0 \<and>
   latencyP95 (calculateMetrics 5 False consumer_initial) = 0 \<and>
   latencyP99 (calculateMetrics 5 False consumer_initial) = 0 \<and>
   averageLatency (calculateMetrics 5 False consumer_initial) = 0 \<and>
   minLatency (calculateMetrics 5 False consumer_initial) = Finite 0 \<and>
   maxLatency (calculateMetrics 5 False consumer_initial) = NegInfinity"
proof -
  have h: "latencySamples consumer_initial = []" by (simp add: consumer_initial_def)
  have m: "maxLatency (calculateMetrics 5 False consumer_initial) = NegInfinity"
    by (simp add: calculateMetrics_def Let_def consumer_initial_def Math_max_def)
  from metrics_without_samples[OF h, of 5 False] h m show ?thesis by simp
qed

subsection \<open>Reconnect backoff\<close>

lemma spec_backoff_values:
  "map spec_backoff_delay [0..<6] = [2000, 4000, 8000, 16000, 30000, 30000]"
  by (simp add: spec_backoff_delay_def upt_rec)

lemma spec_backoff_cap: "spec_backoff_delay (4 + k) = 30000"
proof -
  have "(16::nat) \<le> 2 ^ (4 + k)" by (simp add: power_add)
  then have "(30000::nat) \<le> 2000 * 2 ^ (4 + k)" by simp
  then show ?thesis unfolding spec_backoff_delay_def by (simp add: min_def)
qed

lemma three_failures:
  assumes "currentReconnectDelay s = reconnectDelay"
  shows "scheduledDelays (run fb [OnClose 1006, OnClose 1006, OnClose 1006] s) =
           scheduledDelays s @ [2000, 4000, 8000]"
  using assms
  by (simp add: onclose_def Let_def scheduleReconnect_delays scheduleReconnect_current
      reconnectDelay_def maxReconnectDelay_def)

text \<open>
  C4. From the base delay 2000 ms, as long as no connection succeeds, every connection
  failure schedules one reconnect and counts one attempt, and the reconnect of the
  \<open>k\<close>-th failure (counting from 0) is delayed by \<open>min (2000 * 2^k) 30000\<close> ms: the
  delays are 2000, 4000, 8000 for three consecutive failures and go on doubling to
  16000 and then stay at the cap of 30000. A call of \<open>connect\<close> that raises schedules a
  reconnect as well. A successful connection resets the delay to 2000 ms and the attempt
  counter to 0, so the next failure is again delayed by 2000 ms.
\<close>

theorem reconnect_backoff:
  assumes "currentReconnectDelay s = reconnectDelay"
    and "list_all (\<lambda>e. \<not> is_open e) evs"
  shows "scheduledDelays (run fb evs s) =
           scheduledDelays s @ map (\<lambda>k. min (2000 * 2 ^ k) 30000) [0..<failures fb evs s] \<and>
         reconnectAttempts (run fb evs s) = reconnectAttempts s + failures fb evs s \<and>
         currentReconnectDelay (run fb evs s) = min (2000 * 2 ^ failures fb evs s) 30000 \<and>
         scheduledDelays (run fb (replicate n (OnClose 1006)) s) =
           scheduledDelays s @ map (\<lambda>k. min (2000 * 2 ^ k) 30000) [0..<n] \<and>
         scheduledDelays (run fb [OnClose 1006, OnClose 1006, OnClose 1006] s) =
           scheduledDelays s @ [2000, 4000, 8000] \<and>
         scheduledDelays (run fb (replicate 6 (OnClose 1006)) s) =
           scheduledDelays s @ [2000, 4000, 8000, 16000, 30000, 30000] \<and>
         scheduledDelays (connect u True s) = scheduledDelays s @ [2000] \<and>
         min (2000 * 2 ^ (4 + j)) 30000 = (30000 :: nat) \<and>
         currentReconnectDelay (onopen now s') = 2000 \<and>
         reconnectAttempts (onopen now s') = 0 \<and>
         scheduledDelays (onclose 1006 (onopen now s')) = scheduledDelays s' @ [2000]"
proof -
  have base: "currentReconnectDelay s = spec_backoff_delay 0"
    using assms(1) by (simp add: reconnectDelay_def spec_backoff_delay_def)
  have sb: "spec_backoff_delay = (\<lambda>k. min (2000 * 2 ^ k) 30000)"
    by (rule ext) (simp add: spec_backoff_delay_def)
  from run_backoff[OF assms(2) base, of fb]
  have a: "scheduledDelays (run fb evs s) =
           scheduledDelays s @ map (\<lambda>k. min (2000 * 2 ^ k) 30000) [0..<failures fb evs s]"
    "reconnectAttempts (run fb evs s) = reconnectAttempts s + failures fb evs s"
    "currentReconnectDelay (run fb evs s) = min (2000 * 2 ^ failures fb evs s) 30000"
    by (simp_all add: sb)
  have all: "list_all (\<lambda>e. \<not> is_open e) (replicate m (OnClose 1006))" for m
    by (simp add: list_all_iff)
  have r: "scheduledDelays (run fb (replicate m (OnClose 1006)) s) =
           scheduledDelays s @ map (\<lambda>k. min (2000 * 2 ^ k) 30000) [0..<m]" for m
    using run_backoff[OF all base, of fb m] by (simp add: sb failures_replicate)
  have b: "scheduledDelays (run fb [OnClose 1006, OnClose 1006, OnClose 1006] s) =
           scheduledDelays s @ [2000, 4000, 8000]"
    using three_failures[OF assms(1)] .
  have six: "map (\<lambda>k. min (2000 * 2 ^ k) 30000) [0..<6] =
      [2000, 4000, 8000, 16000, 30000, 30000 :: nat]"
    using spec_backoff_values by (simp only: sb)
  have c6: "scheduledDelays (run fb (replicate 6 (OnClose 1006)) s) =
           scheduledDelays s @ [2000, 4000, 8000, 16000, 30000, 30000]"
    unfolding r[of 6] six ..
  have ct: "scheduledDelays (connect u True s) = scheduledDelays s @ [2000]"
    using assms(1) by (simp add: connect_def Let_def scheduleReconnect_delays reconnectDelay_def)
  have cap: "min (2000 * 2 ^ (4 + j)) 30000 = (30000 :: nat)"
    using spec_backoff_cap[of j] by (simp add: spec_backoff_delay_def)
  have c: "currentReconnectDelay (onopen now s') = 2000" "reconnectAttempts (onopen now s') = 0"
    by (simp_all add: onopen_def reconnectDelay_def)
  have d: "scheduledDelays (onclose 1006 (onopen now s')) = scheduledDelays s' @ [2000]"
    by (simp add: onclose_def Let_def scheduleReconnect_delays) (simp add: onopen_def reconnectDelay_def)
  from a r[of n] b c6 ct cap c d show ?thesis by blast
qed

lemma failing_run:
  "run crypto_fbs
     [OnError, OnClose 1006, TimerFired 1 False, OnError, OnClose 1006,
      TimerFired 2 False, OnError, OnClose 1006, TimerFired 3 False, OnOpen 70, OnClose 1006]
     (connect ''ws://localhost:8080'' False consumer_initial) =
   consumer_initial
     \<lparr>ws := Some 3, reconnectTimeout := Some 4, url := ''ws://localhost:8080'',
      currentReconnectDelay := 4000, connectionStartTime := 70, reconnectAttempts := 1,
      connectionStatusAtom := RECONNECTING, pendingTimeouts := [(4, 2000)],
      scheduledDelays := [2000, 4000, 8000, 2000], nextTimeout := 5, socketsCreated := 4\<rparr>"
  by (simp add: connect_def consumer_initial_def onerror_def onclose_def onopen_def fire_def
      scheduleReconnect_def clearTimeout_def Let_def reconnectDelay_def maxReconnectDelay_def)

theorem reconnect_backoff_witness:
  "currentReconnectDelay (connect ''ws://localhost:8080'' False consumer_initial) = reconnectDelay \<and>
   list_all (\<lambda>e. \<not> is_open e)
     [OnError, OnClose 1006, TimerFired 1 False, OnError, OnClose 1006,
      TimerFired 2 True, TimerFired 3 False, OnError, OnClose 1006, TimerFired 4 False,
      OnError, OnClose 1006, TimerFired 5 False, OnError, OnClose 1006] \<and>
   failures crypto_fbs
     [OnError, OnClose 1006, TimerFired 1 False, OnError, OnClose 1006,
      TimerFired 2 True, TimerFired 3 False, OnError, OnClose 1006, TimerFired 4 False,
      OnError, OnClose 1006, TimerFired 5 False, OnError, OnClose 1006]
     (connect ''ws://localhost:8080'' False consumer_initial) = 6 \<and>
   scheduledDelays
     (run crypto_fbs
        [OnError, OnClose 1006, TimerFired 1 False, OnError, OnClose 1006,
         TimerFired 2 True, TimerFired 3 False, OnError, OnClose 1006, TimerFired 4 False,
         OnError, OnClose 1006, TimerFired 5 False, OnError, OnClose 1006]
        (connect ''ws://localhost:8080'' False consumer_initial)) =
     [2000, 4000, 8000, 16000, 30000, 30000] \<and>
   reconnectAttempts
     (run crypto_fbs
        [OnError, OnClose 1006, TimerFired 1 False, OnError, OnClose 1006,
         TimerFired 2 True, TimerFired 3 False, OnError, OnClose 1006, TimerFired 4 False,
         OnError, OnClose 1006, TimerFired 5 False, OnError, OnClose 1006]
        (connect ''ws://localhost:8080'' False consumer_initial)) = 6 \<and>
   currentReconnectDelay (onopen 70 consumer_initial) = 2000"
proof -
  let ?s = "connect ''ws://localhost:8080'' False consumer_initial"
  let ?evs = "[OnError, OnClose 1006, TimerFired 1 False, OnError, OnClose 1006,
      TimerFired 2 True, TimerFired 3 False, OnError, OnClose 1006, TimerFired 4 False,
      OnError, OnClose 1006, TimerFired 5 False, OnError, OnClose 1006]"
  have h1: "currentReconnectDelay ?s = reconnectDelay"
    by (simp add: connect_def consumer_initial_def reconnectDelay_def Let_def)
  have h2: "list_all (\<lambda>e. \<not> is_open e) ?evs" by simp
  have f: "failures crypto_fbs ?evs ?s = 6"
    by (simp add: connect_def consumer_initial_def onerror_def onclose_def fire_def
      scheduleReconnect_def clearTimeout_def Let_def reconnectDelay_def maxReconnectDelay_def)
  have s0: "scheduledDelays ?s = []" "reconnectAttempts ?s = 0"
    by (simp_all add: connect_def consumer_initial_def Let_def)
  have six: "map (\<lambda>k. min (2000 * 2 ^ k) 30000) [0..<6] =
      [2000, 4000, 8000, 16000, 30000, 30000 :: nat]"
    by (simp add: upt_rec)
  note T = reconnect_backoff[OF h1 h2, of crypto_fbs 0 "''x''" 0 70 consumer_initial]
  from T have d: "scheduledDelays (run crypto_fbs ?evs ?s) =
      scheduledDelays ?s @ map (\<lambda>k. min (2000 * 2 ^ k) 30000) [0..<failures crypto_fbs ?evs ?s]"
    by blast
  from T have a: "reconnectAttempts (run crypto_fbs ?evs ?s) =
      reconnectAttempts ?s + failures crypto_fbs ?evs ?s" by blast
  from T have o: "currentReconnectDelay (onopen 70 consumer_initial) = 2000" by blast
  have d': "scheduledDelays (run crypto_fbs ?evs ?s) = [2000, 4000, 8000, 16000, 30000, 30000]"
    unfolding d f s0 six by simp
  have a': "reconnectAttempts (run crypto_fbs ?evs ?s) = 6"
    unfolding a f s0 by simp
  from h1 h2 f d' a' o show ?thesis by blast
qed

subsection \<open>Local disconnect\<close>

text \<open>
  What does hold after a local \<open>disconnect()\<close>: the live socket has been closed with code
  1000 and no timeout is pending; and as long as \<open>connect()\<close> is not called, no error
  event arrives and every close event carries the code 1000, the status stays
  \<open>DISCONNECTED\<close> and no reconnect is scheduled.
\<close>

lemma disconnect_then_normal_closure:
  assumes "list_all quiet_after_disconnect evs"
  shows "connectionStatusAtom (run fb evs (disconnect (run fb pre consumer_initial))) = DISCONNECTED \<and>
         pendingTimeouts (run fb evs (disconnect (run fb pre consumer_initial))) = [] \<and>
         scheduledDelays (run fb evs (disconnect (run fb pre consumer_initial))) =
           scheduledDelays (run fb pre consumer_initial) \<and>
         closeCalls (run fb evs (disconnect (run fb pre consumer_initial))) =
           closeCalls (run fb pre consumer_initial) @
             (case ws (run fb pre consumer_initial) of None \<Rightarrow> [] | Some w \<Rightarrow> [(w, 1000)]) \<and>
         pendingTimeouts (disconnect (run fb pre consumer_initial)) = [] \<and>
         connectionStatusAtom (disconnect (run fb pre consumer_initial)) = DISCONNECTED"
proof -
  let ?s0 = "run fb pre consumer_initial"
  have own: "timers_owned ?s0"
    by (rule timers_owned_run) (rule timers_owned_initial)
  have rest: "at_rest (disconnect ?s0)"
    by (rule disconnect_at_rest) (rule own)
  from quiet_run[OF assms rest, of fb]
  have after: "at_rest (run fb evs (disconnect ?s0))"
    "scheduledDelays (run fb evs (disconnect ?s0)) = scheduledDelays (disconnect ?s0)"
    "closeCalls (run fb evs (disconnect ?s0)) = closeCalls (disconnect ?s0)"
    by simp_all
  from rest after show ?thesis
    by (simp add: at_rest_def disconnect_closes disconnect_delays)
qed

lemma disconnect_keeps:
  "nextTimeout (disconnect s) = nextTimeout s"
  "currentReconnectDelay (disconnect s) = currentReconnectDelay s"
  "socketsCreated (disconnect s) = socketsCreated s"
  "reconnectAttempts (disconnect s) = reconnectAttempts s"
  "url (disconnect s) = url s"
  by (simp_all add: disconnect_def clearTimeout_def Let_def split: option.splits)

text \<open>
  C8 (what the code does). \<open>disconnect()\<close> calls \<open>close(1000)\<close>, clears the pending timeout
  and sets the status \<open>DISCONNECTED\<close>, but it leaves its handlers on the socket, and the
  close handler decides by the code of the close event alone. Whatever happened before
  the \<open>disconnect()\<close>: when the close event that follows carries a code other than 1000
  (the connection was lost, or had not been established, before the closing handshake
  completed), the handler schedules a reconnect. The status becomes \<open>RECONNECTING\<close>, a
  timeout is pending with the current delay, an attempt is counted, and when the timeout
  fires a new socket is created and the status is \<open>CONNECTING\<close>, although \<open>connect()\<close> was
  not called again. An error event after the \<open>disconnect()\<close> sets the status \<open>ERROR\<close>.
\<close>

theorem disconnect_then_abnormal_close:
  assumes "code \<noteq> 1000"
    and "s0 = run fb pre consumer_initial"
  shows "connectionStatusAtom (disconnect s0) = DISCONNECTED \<and>
         pendingTimeouts (disconnect s0) = [] \<and>
         closeCalls (disconnect s0) =
           closeCalls s0 @ (case ws s0 of None \<Rightarrow> [] | Some w \<Rightarrow> [(w, 1000)]) \<and>
         connectionStatusAtom (run fb [Disconnect, OnClose code] s0) = RECONNECTING \<and>
         pendingTimeouts (run fb [Disconnect, OnClose code] s0) =
           [(nextTimeout s0, currentReconnectDelay s0)] \<and>
         scheduledDelays (run fb [Disconnect, OnClose code] s0) =
           scheduledDelays s0 @ [currentReconnectDelay s0] \<and>
         reconnectAttempts (run fb [Disconnect, OnClose code] s0) = reconnectAttempts s0 + 1 \<and>
         connectionStatusAtom
           (run fb [Disconnect, OnClose code, TimerFired (nextTimeout s0) False] s0) = CONNECTING \<and>
         ws (run fb [Disconnect, OnClose code, TimerFired (nextTimeout s0) False] s0) =
           Some (socketsCreated s0) \<and>
         socketsCreated (run fb [Disconnect, OnClose code, TimerFired (nextTimeout s0) False] s0) =
           socketsCreated s0 + 1 \<and>
         connectionStatusAtom (run fb [Disconnect, OnError] s0) = ERROR"
proof -
  have own: "timers_owned s0"
    unfolding assms(2) by (rule timers_owned_run) (rule timers_owned_initial)
  have rest: "at_rest (disconnect s0)"
    by (rule disconnect_at_rest) (rule own)
  let ?d = "disconnect s0"
  let ?c = "onclose code ?d"
  have a: "connectionStatusAtom ?d = DISCONNECTED" "pendingTimeouts ?d = []"
    "reconnectTimeout ?d = None"
    using rest by (simp_all add: at_rest_def)
  have b: "closeCalls ?d = closeCalls s0 @ (case ws s0 of None \<Rightarrow> [] | Some w \<Rightarrow> [(w, 1000)])"
    by (rule disconnect_closes)
  have c: "connectionStatusAtom ?c = RECONNECTING"
    "pendingTimeouts ?c = [(nextTimeout s0, currentReconnectDelay s0)]"
    "scheduledDelays ?c = scheduledDelays s0 @ [currentReconnectDelay s0]"
    "reconnectAttempts ?c = reconnectAttempts s0 + 1"
    "socketsCreated ?c = socketsCreated s0"
    using assms(1) a
    by (simp_all add: onclose_def scheduleReconnect_def Let_def disconnect_keeps disconnect_delays)
  have f: "connectionStatusAtom (fire (nextTimeout s0) False ?c) = CONNECTING"
    "ws (fire (nextTimeout s0) False ?c) = Some (socketsCreated s0)"
    "socketsCreated (fire (nextTimeout s0) False ?c) = socketsCreated s0 + 1"
    using c by (simp_all add: fire_def connect_def clearTimeout_def Let_def)
  have e: "connectionStatusAtom (onerror ?d) = ERROR"
    by (simp add: onerror_def)
  from a b c f e show ?thesis by simp
qed

theorem disconnect_then_abnormal_close_witness:
  "(1006 :: nat) \<noteq> 1000 \<and>
   connectionStatusAtom
     (run crypto_fbs [Connect ''ws://localhost:8080'' False, Disconnect] consumer_initial) =
     DISCONNECTED \<and>
   closeCalls
     (run crypto_fbs [Connect ''ws://localhost:8080'' False, Disconnect] consumer_initial) =
     [(0, 1000)] \<and>
   connectionStatusAtom
     (run crypto_fbs [Connect ''ws://localhost:8080'' False, Disconnect, OnClose 1006]
        consumer_initial) = RECONNECTING \<and>
   pendingTimeouts
     (run crypto_fbs [Connect ''ws://localhost:8080'' False, Disconnect, OnClose 1006]
        consumer_initial) = [(1, 2000)] \<and>
   connectionStatusAtom
     (run crypto_fbs
        [Connect ''ws://localhost:8080'' False, Disconnect, OnClose 1006, TimerFired 1 False]
        consumer_initial) = CONNECTING \<and>
   ws (run crypto_fbs
        [Connect ''ws://localhost:8080'' False, Disconnect, OnClose 1006, TimerFired 1 False]
        consumer_initial) = Some 1"
proof -
  let ?s0 = "run crypto_fbs [Connect ''ws://localhost:8080'' False] consumer_initial"
  have s0: "nextTimeout ?s0 = 1" "currentReconnectDelay ?s0 = 2000" "socketsCreated ?s0 = 1"
    "ws ?s0 = Some 0" "closeCalls ?s0 = []"
    by (simp_all add: connect_def consumer_initial_def Let_def)
  have h: "(1006 :: nat) \<noteq> 1000" by simp
  from disconnect_then_abnormal_close[OF h refl, of crypto_fbs "[Connect ''ws://localhost:8080'' False]"]
  show ?thesis unfolding s0 by simp
qed

subsection \<open>Decoding\<close>

lemma bytes_at_zeros [simp]: "bytes_at (replicate n 0) i = 0"
  by (auto simp: bytes_at_def nat_less_iff)

lemma bytes_at_beyond: "int (length bb) \<le> i \<Longrightarrow> bytes_at bb i = 0"
  by (simp add: bytes_at_def)

lemma to_int32_0 [simp]: "to_int32 0 = 0"
  by (simp add: to_int32_def)

lemma bb_offset_zeros [simp]: "bb_offset (replicate n 0) pos slot = 0"
  by (simp add: bb_offset_def readInt32_def readInt16_def readUint16_def)

lemma js_Number_0 [simp]: "js_Number 0 = 0"
  by (simp add: js_Number_def)

lemma toViewModel_zeros: "toViewModel g (replicate n 0) pos = empty_world"
  by (simp add: toViewModel_def cryptosLength_def frameId_of_def timestamp_of_def
      totalCryptos_of_def read_field_def empty_world_def)

lemma bb_offset_beyond:
  assumes "int (length bb) \<le> pos"
  shows "bb_offset bb pos slot = 0"
proof -
  have r: "readInt32 bb pos = 0"
    using assms by (simp add: readInt32_def bytes_at_beyond)
  have "readInt16 bb pos = 0"
    using assms by (simp add: readInt16_def readUint16_def bytes_at_beyond)
  then show ?thesis by (simp add: bb_offset_def r)
qed

lemma cryptoToViewModel_beyond:
  assumes "int (length bb) \<le> pos"
  shows "cryptoToViewModel g bb pos = empty_crypto"
  by (simp add: cryptoToViewModel_def string_field_def float_field_def read_field_def
      bb_offset_beyond[OF assms] or_empty_def empty_crypto_def)

lemma collect_cryptos_replicate:
  "(\<And>i. i < n \<Longrightarrow> get i = Some c) \<Longrightarrow> collect_cryptos get n = replicate n c"
  by (induction n) (simp_all add: replicate_append_same)

lemma length_bomb_reads:
  "readInt32 length_bomb 0 = 12"
  "readInt32 length_bomb 12 = 8"
  "readInt16 length_bomb 4 = 6"
  "readInt16 length_bomb 8 = 4"
  "readInt32 length_bomb 16 = 4"
  "readInt32 length_bomb 20 = 2147483647"
  by (simp_all add: readInt32_def readInt16_def readUint16_def bytes_at_def length_bomb_def
      to_int32_def)

lemma length_bomb_cryptos:
  assumes "vt_cryptos g = 4"
  shows "cryptosLength g length_bomb 12 = 2147483647"
    and "cryptos_at g length_bomb 12 i = Some (24 + 4 * int i)"
proof -
  have o: "bb_offset length_bomb 12 (vt_cryptos g) = 4"
    by (simp add: bb_offset_def length_bomb_reads assms)
  show "cryptosLength g length_bomb 12 = 2147483647"
    by (simp add: cryptosLength_def o bb_vector_len_def length_bomb_reads)
  have "readInt32 length_bomb (24 + 4 * int i) = 0"
    by (simp add: readInt32_def bytes_at_beyond length_bomb_def)
  then show "cryptos_at g length_bomb 12 i = Some (24 + 4 * int i)"
    by (simp add: cryptos_at_def o bb_vector_def bb_indirect_def length_bomb_reads mult.commute)
qed

lemma length_bomb_view:
  assumes "vt_cryptos g = 4"
  shows "vm_cryptos (toViewModel g length_bomb (getRootAsWorldState length_bomb)) =
         replicate 2147483647 empty_crypto"
proof -
  have len: "int (length length_bomb) \<le> 24 + 4 * int i" for i
    by (simp add: length_bomb_def)
  have "map_option (cryptoToViewModel g length_bomb) (cryptos_at g length_bomb 12 i) =
        Some empty_crypto" for i
    by (simp add: length_bomb_cryptos(2)[OF assms] cryptoToViewModel_beyond[OF len])
  then have "collect_cryptos
          (\<lambda>i. map_option (cryptoToViewModel g length_bomb) (cryptos_at g length_bomb 12 i))
          (nat 2147483647) = replicate (nat 2147483647) empty_crypto"
    by (intro collect_cryptos_replicate) simp
  then show ?thesis
    by (simp add: toViewModel_def getRootAsWorldState_def length_bomb_reads
        length_bomb_cryptos(1)[OF assms] Let_def)
qed

text \<open>
  C1 (what the code does). \<open>decode\<close> tests no length and rejects nothing: the minimum of
  8 bytes is tested by \<open>isValidBuffer\<close>, which nothing calls. For the empty buffer, and
  for a buffer of any number of zero bytes (4 and 8 among them), \<open>decode\<close> raises no
  error, neither \<open>Truncated\<close> nor \<open>Malformed\<close> nor its own "Failed to decode binary
  data": every read beyond the end of the buffer gives 0, the result is the view model
  of an empty frame with timestamp 0, and it is counted as a successful decode. The
  handler of binary messages then replaces the list of records in the store by the empty
  list and records the receive time itself as a latency sample. The bound of the loop
  over the records is read from the buffer and compared with nothing: for the message
  \<open>length_bomb\<close> of 24 bytes the loop runs 2147483647 times and builds a list of that
  many records, each read from beyond the end of the buffer.
\<close>

theorem decode_rejects_nothing:
  "decode g t [] d = (Inr empty_world, updateMetrics t d) \<and>
   decode g t (replicate n 0) d = (Inr empty_world, updateMetrics t d) \<and>
   \<not> isValidBuffer [] \<and> \<not> isValidBuffer (replicate 4 0) \<and> isValidBuffer (replicate 8 0) \<and>
   handleBinaryMessage g t now ws_open [] receiveTime s =
     trackPerformance now ws_open 0 receiveTime
       (s\<lparr>decoder := updateMetrics t (decoder s), allCryptosAtom := []\<rparr>) \<and>
   allCryptosAtom (handleBinaryMessage g t now ws_open [] receiveTime s) = [] \<and>
   length length_bomb = 24 \<and>
   (\<exists>viewModel.
      decode (g\<lparr>vt_cryptos := 4\<rparr>) t length_bomb d = (Inr viewModel, updateMetrics t d) \<and>
      vm_cryptos viewModel = replicate 2147483647 empty_crypto \<and>
      length (vm_cryptos viewModel) = 2147483647)"
proof -
  have z: "decode g t (replicate m 0) d = (Inr empty_world, updateMetrics t d)" for m
    by (simp add: decode_def toViewModel_zeros)
  have e: "decode g t [] d = (Inr empty_world, updateMetrics t d)" for d
    using z[of 0] by (simp add: decode_def toViewModel_zeros[of _ 0, simplified])
  have v: "\<not> isValidBuffer []" "\<not> isValidBuffer (replicate 4 0)" "isValidBuffer (replicate 8 0)"
    by (simp_all add: isValidBuffer_def)
  have h: "handleBinaryMessage g t now ws_open [] receiveTime s =
     trackPerformance now ws_open 0 receiveTime
       (s\<lparr>decoder := updateMetrics t (decoder s), allCryptosAtom := []\<rparr>)"
    by (simp add: handleBinaryMessage_def e empty_world_def)
  have a: "allCryptosAtom (handleBinaryMessage g t now ws_open [] receiveTime s) = []"
    unfolding h by (simp add: trackPerformance_def Let_def)
  have l: "length length_bomb = 24" by (simp add: length_bomb_def)
  have b: "vm_cryptos (toViewModel (g\<lparr>vt_cryptos := 4\<rparr>) length_bomb
             (getRootAsWorldState length_bomb)) = replicate 2147483647 empty_crypto"
    by (rule length_bomb_view) simp
  have "decode (g\<lparr>vt_cryptos := 4\<rparr>) t length_bomb d =
          (Inr (toViewModel (g\<lparr>vt_cryptos := 4\<rparr>) length_bomb (getRootAsWorldState length_bomb)),
           updateMetrics t d)"
    by (simp add: decode_def)
  with b have x: "\<exists>viewModel.
      decode (g\<lparr>vt_cryptos := 4\<rparr>) t length_bomb d = (Inr viewModel, updateMetrics t d) \<and>
      vm_cryptos viewModel = replicate 2147483647 empty_crypto \<and>
      length (vm_cryptos viewModel) = 2147483647"
    by simp
  from e z[of n] v h a l x show ?thesis by blast
qed

section \<open>Properties of the producer\<close>

subsection \<open>Auxiliary facts\<close>

lemma array_includes_iff: "array_includes xs x = (x \<in> set xs)"
  by (induction xs) auto

lemma getFilteredPrices_spec:
  "getFilteredPrices rnd now cache syms = spec_apply_filter syms (getCurrentPrices rnd now cache)"
  by (simp add: getFilteredPrices_def spec_apply_filter_def array_includes_iff)

lemma spec_apply_filter_subseq: "subseq (spec_apply_filter syms rs) rs"
  by (simp add: spec_apply_filter_def)

lemma encode_frame:
  "fst (encode now t cs e) =
     \<lparr>cryptos = cs, frameId = frameCounter e, timestamp = now, totalCryptos = length cs\<rparr>"
  "frameCounter (snd (encode now t cs e)) = frameCounter e + 1"
  "totalEncoded (snd (encode now t cs e)) = totalEncoded e + 1"
  by (simp_all add: encode_def)

lemma tick_sends:
  assumes "map_of (activeIntervals s) h = Some (w, p)" "w \<in> set (openSockets s)"
    "map_of (client_objects s) w = Some client"
  shows "sent (tick bl h now t rnd s) =
           sent s @ [(w, Binary \<lparr>cryptos = spec_apply_filter (symbols (client_filter client))
                                            (getCurrentPrices rnd now (cryptoCache s)),
                                 frameId = frameCounter (encoder s), timestamp = now,
                                 totalCryptos = length (spec_apply_filter (symbols (client_filter client))
                                            (getCurrentPrices rnd now (cryptoCache s)))\<rparr>)]"
    and "frameCounter (encoder (tick bl h now t rnd s)) = frameCounter (encoder s) + 1"
  using assms
  by (simp_all add: tick_def Let_def encode_def getFilteredPrices_spec spec_apply_filter_def)

lemma encode_all_Cons:
  "encode_all ((now, t, cs) # calls) e =
     (fst (encode now t cs e) # fst (encode_all calls (snd (encode now t cs e))),
      snd (encode_all calls (snd (encode now t cs e))))"
  by (simp add: case_prod_unfold)

lemma encode_all_ids:
  "map frameId (fst (encode_all calls e)) = [frameCounter e..<frameCounter e + length calls]"
proof (induction calls arbitrary: e)
  case Nil
  then show ?case by simp
next
  case (Cons c calls)
  obtain now t cs where c: "c = (now, t, cs)" by (cases c) auto
  show ?case unfolding c encode_all_Cons
    by (simp add: Cons.IH encode_frame upt_conv_Cons del: encode_all.simps upt_Suc)
qed

lemma encode_all_frameCounter:
  "frameCounter (snd (encode_all calls e)) = frameCounter e + length calls"
proof (induction calls arbitrary: e)
  case Nil
  then show ?case by simp
next
  case (Cons c calls)
  obtain now t cs where c: "c = (now, t, cs)" by (cases c) auto
  show ?case unfolding c encode_all_Cons
    by (simp add: Cons.IH encode_frame del: encode_all.simps)
qed

lemma encode_all_totalEncoded:
  "totalEncoded (snd (encode_all calls e)) = totalEncoded e + length calls"
proof (induction calls arbitrary: e)
  case Nil
  then show ?case by simp
next
  case (Cons c calls)
  obtain now t cs where c: "c = (now, t, cs)" by (cases c) auto
  show ?case unfolding c encode_all_Cons
    by (simp add: Cons.IH encode_frame del: encode_all.simps)
qed

lemma encode_all_cryptos:
  "map cryptos (fst (encode_all calls e)) = map (\<lambda>c. snd (snd c)) calls"
proof (induction calls arbitrary: e)
  case Nil
  then show ?case by simp
next
  case (Cons c calls)
  obtain now t cs where c: "c = (now, t, cs)" by (cases c) auto
  show ?case unfolding c encode_all_Cons
    by (simp add: Cons.IH encode_frame del: encode_all.simps)
qed

lemma encode_all_totalCryptos:
  "map totalCryptos (fst (encode_all calls e)) = map (\<lambda>c. length (snd (snd c))) calls"
proof (induction calls arbitrary: e)
  case Nil
  then show ?case by simp
next
  case (Cons c calls)
  obtain now t cs where c: "c = (now, t, cs)" by (cases c) auto
  show ?case unfolding c encode_all_Cons
    by (simp add: Cons.IH encode_frame del: encode_all.simps)
qed

lemma frames_of_append: "frames_of (xs @ ys) = frames_of xs @ frames_of ys"
  by (induction xs rule: frames_of.induct) simp_all

lemma sendResponse_frames [simp]:
  "frames_of (sent (sendResponse w r s)) = frames_of (sent s)"
  "encoder (sendResponse w r s) = encoder s"
  by (simp_all add: sendResponse_def frames_of_append)

lemma frames_numbered_cong:
  "frames_of (sent s') = frames_of (sent s) \<Longrightarrow> encoder s' = encoder s \<Longrightarrow>
   frames_numbered s \<Longrightarrow> frames_numbered s'"
  by (simp add: frames_numbered_def)

lemma tick_numbered: "frames_numbered s \<Longrightarrow> frames_numbered (tick bl h now t rnd s)"
  by (auto simp: frames_numbered_def tick_def clearInterval_def Let_def encode_def frames_of_append
      split: option.splits prod.splits)

lemma handleCommand_frames:
  "handleCommand w c now s = Returned s' \<or> handleCommand w c now s = Raised x s' \<Longrightarrow>
   frames_of (sent s') = frames_of (sent s) \<and> encoder s' = encoder s"
  by (auto simp: handleCommand_def set_client_def startDataStream_def clearInterval_def Let_def
      split: option.splits sum.splits if_splits)

lemma handleMessage_frames:
  "handleMessage jp w t now s = Returned s' \<Longrightarrow>
   frames_of (sent s') = frames_of (sent s) \<and> encoder s' = encoder s"
  by (auto simp: handleMessage_def sendError_def split: option.splits if_splits outcome.splits
      dest: handleCommand_frames[OF disjI1] handleCommand_frames[OF disjI2])

lemma handleConnection_frames:
  "frames_of (sent (handleConnection w now s)) = frames_of (sent s) \<and>
   encoder (handleConnection w now s) = encoder s"
  by (simp add: handleConnection_def set_client_def startDataStream_def Let_def)

lemma handleDisconnect_frames:
  "frames_of (sent (handleDisconnect w s)) = frames_of (sent s) \<and>
   encoder (handleDisconnect w s) = encoder s"
  by (simp add: handleDisconnect_def clearInterval_def Let_def split: option.splits)

lemma step_numbered:
  assumes "producer_step jp bl e s = Returned s'" "frames_numbered s"
  shows "frames_numbered s'"
proof (cases e)
  case (Connection w now)
  then show ?thesis using assms handleConnection_frames[of w now "s\<lparr>openSockets := w # openSockets s\<rparr>"]
    by (auto simp: frames_numbered_def)
next
  case (Message w t now)
  then show ?thesis using assms handleMessage_frames[of jp w t now s s']
    by (auto simp: frames_numbered_def)
next
  case (Close w)
  then show ?thesis using assms handleDisconnect_frames[of w "s\<lparr>openSockets := removeAll w (openSockets s)\<rparr>"]
    by (auto simp: frames_numbered_def)
next
  case (Error w)
  then show ?thesis using assms handleDisconnect_frames[of w s]
    by (auto simp: frames_numbered_def)
next
  case (NotOpen w)
  then show ?thesis using assms by (auto simp: frames_numbered_def)
next
  case (Tick h now t rnd)
  then show ?thesis using assms tick_numbered[of s bl h now t rnd] by auto
qed

lemma run_numbered:
  "producer_run jp bl es s = Returned s' \<Longrightarrow> frames_numbered s \<Longrightarrow> frames_numbered s'"
proof (induction es arbitrary: s)
  case Nil
  then show ?case by simp
next
  case (Cons e es)
  then show ?case
    by (auto split: outcome.splits dest: step_numbered)
qed

lemma initial_numbered: "frames_numbered (producer_initial t cache)"
  by (simp add: frames_numbered_def producer_initial_def Encoder_initial_def)

lemma run_never_raises: "producer_run jp bl es s \<noteq> Raised x s'"
proof (induction es arbitrary: s)
  case Nil
  then show ?case by simp
next
  case (Cons e es)
  have "producer_step jp bl e s \<noteq> Raised x s'" for x s'
    by (cases e) (auto simp: handleMessage_def split: option.splits outcome.splits)
  then show ?case using Cons.IH
    by (auto split: outcome.splits)
qed


lemma change_frequency_guards:
  "isClientCommand (change_frequency_command f)"
  "isChangeFrequencyCommand (change_frequency_command f)"
  "payload_field (change_frequency_command f) ''frequency'' = Inr (Some (JNum f))"
  by (simp_all add: change_frequency_command_def isClientCommand_def
      isChangeFrequencyCommand_def payload_field_def)

lemma filter_delete_owned:
  assumes "list_all (\<lambda>(h, w', p). map_of ui w' = Some h \<and> h < n) ai"
  shows "filter (\<lambda>(h, w', p). w' = w) (AList.delete (the (map_of ui w)) ai) = []"
  using assms by (induction ai) auto

lemma filter_none_owned:
  assumes "list_all (\<lambda>(h, w', p). map_of ui w' = Some h \<and> h < n) ai" "map_of ui w = None"
  shows "filter (\<lambda>(h, w', p). w' = w) ai = []"
  using assms by (induction ai) auto

lemma old_intervals_cleared:
  assumes "intervals_owned s"
  shows "filter (\<lambda>(h, w', p). w' = w)
           (case map_of (updateIntervals s) w of
              None \<Rightarrow> activeIntervals s
            | Some h \<Rightarrow> AList.delete h (activeIntervals s)) = []"
  using assms filter_delete_owned[of "updateIntervals s" "nextInterval s" "activeIntervals s" w]
    filter_none_owned[of "updateIntervals s" "nextInterval s" "activeIntervals s" w]
  by (auto simp: intervals_owned_def split: option.splits)

text \<open>Interval ownership holds in every state the dispatcher reaches.\<close>

lemma objects_kept_refl: "objects_kept s s"
  by (simp add: objects_kept_def)

lemma set_delete: "set (AList.delete k al) = {x \<in> set al. fst x \<noteq> k}"
  by (auto simp: AList.delete_eq)

lemma known_start:
  assumes "intervals_known s" "intervals_of w s = []" "map_of (client_objects s) w \<noteq> None"
  shows "intervals_known (startDataStream w c s)"
proof -
  have a: "\<forall>(h, w', p) \<in> set (activeIntervals s). w' \<noteq> w"
    using assms(2) unfolding intervals_of_def by (auto simp: filter_empty_conv)
  show ?thesis
    using assms(1,3) a
    by (auto simp: intervals_known_def intervals_owned_def startDataStream_def Let_def
        list_all_iff update_conv')
qed

lemma known_cleared:
  assumes "intervals_known s"
  shows "intervals_known (case map_of (updateIntervals s) w of None \<Rightarrow> s
                          | Some h \<Rightarrow> clearInterval h s)"
    and "intervals_of w (case map_of (updateIntervals s) w of None \<Rightarrow> s
                          | Some h \<Rightarrow> clearInterval h s) = []"
proof -
  show "intervals_known (case map_of (updateIntervals s) w of None \<Rightarrow> s
                          | Some h \<Rightarrow> clearInterval h s)"
    using assms
    by (auto simp: intervals_known_def intervals_owned_def clearInterval_def list_all_iff
        set_delete split: option.splits)
  from assms have o: "intervals_owned s" by (simp add: intervals_known_def)
  show "intervals_of w (case map_of (updateIntervals s) w of None \<Rightarrow> s
                          | Some h \<Rightarrow> clearInterval h s) = []"
    using old_intervals_cleared[OF o, of w]
    by (simp add: intervals_of_def clearInterval_def split: option.splits)
qed

lemma known_cong:
  assumes "activeIntervals s' = activeIntervals s" "updateIntervals s' = updateIntervals s"
    "nextInterval s' = nextInterval s" "objects_kept s s'" "intervals_known s"
  shows "intervals_known s'"
  using assms by (auto simp: intervals_known_def intervals_owned_def list_all_iff objects_kept_def)

lemma sendResponse_fields:
  "activeIntervals (sendResponse w r s) = activeIntervals s"
  "updateIntervals (sendResponse w r s) = updateIntervals s"
  "nextInterval (sendResponse w r s) = nextInterval s"
  "client_objects (sendResponse w r s) = client_objects s"
  by (simp_all add: sendResponse_def)

lemma set_client_fields:
  "activeIntervals (set_client w c s) = activeIntervals s"
  "updateIntervals (set_client w c s) = updateIntervals s"
  "nextInterval (set_client w c s) = nextInterval s"
  "map_of (client_objects (set_client w c s)) = (map_of (client_objects s))(w \<mapsto> c)"
  by (simp_all add: set_client_def update_conv')

lemma known_sendResponse: "intervals_known (sendResponse w r s) = intervals_known s"
  by (simp add: intervals_known_def intervals_owned_def sendResponse_fields)

lemma kept_sendResponse: "objects_kept s (sendResponse w r s') = objects_kept s s'"
  by (simp add: objects_kept_def sendResponse_fields)

lemma kept_set_client: "objects_kept s (set_client w c s)"
  by (simp add: objects_kept_def set_client_fields)

lemma known_set_client: "intervals_known s \<Longrightarrow> intervals_known (set_client w c s)"
  by (rule known_cong[of _ s]) (simp_all add: set_client_fields kept_set_client)

lemma known_change_frequency:
  assumes "intervals_known s"
  shows "intervals_known
           (startDataStream w c
              (case map_of (updateIntervals (set_client w c s)) w of
                 None \<Rightarrow> set_client w c s
               | Some h \<Rightarrow> clearInterval h (set_client w c s)))"
    and "objects_kept s
           (startDataStream w c
              (case map_of (updateIntervals (set_client w c s)) w of
                 None \<Rightarrow> set_client w c s
               | Some h \<Rightarrow> clearInterval h (set_client w c s)))"
proof -
  let ?s1 = "set_client w c s"
  let ?s2 = "case map_of (updateIntervals ?s1) w of None \<Rightarrow> ?s1 | Some h \<Rightarrow> clearInterval h ?s1"
  have k1: "intervals_known ?s1" using assms by (rule known_set_client)
  have k2: "intervals_known ?s2" "intervals_of w ?s2 = []"
    using known_cleared[OF k1, of w] by simp_all
  have o2: "map_of (client_objects ?s2) = (map_of (client_objects s))(w \<mapsto> c)"
    by (simp add: set_client_fields clearInterval_def split: option.splits)
  then have m2: "map_of (client_objects ?s2) w \<noteq> None" by simp
  show "intervals_known (startDataStream w c ?s2)"
    using known_start[OF k2 m2] .
  show "objects_kept s (startDataStream w c ?s2)"
    using o2 by (simp add: objects_kept_def startDataStream_def Let_def)
qed

lemma known_handleCommand:
  assumes "handleCommand w c now s = Returned s' \<or> handleCommand w c now s = Raised x s'"
    and "intervals_known s"
  shows "intervals_known s' \<and> objects_kept s s'"
proof (cases "clients_get s w")
  case None
  then show ?thesis using assms by (auto simp: handleCommand_def objects_kept_refl)
next
  case (Some client)
  show ?thesis
  proof (cases "isFilterCoinsCommand c")
    case True
    then show ?thesis using assms Some
      by (auto simp: handleCommand_def Let_def known_sendResponse known_set_client
          kept_sendResponse kept_set_client objects_kept_refl split: sum.splits option.splits)
  next
    case nf: False
    show ?thesis
    proof (cases "isChangeFrequencyCommand c")
      case True
      show ?thesis
      proof (cases "payload_field c ''frequency''")
        case (Inl e)
        then show ?thesis using assms Some nf True
          by (auto simp: handleCommand_def objects_kept_refl)
      next
        case (Inr v)
        show ?thesis
        proof (cases "payload_frequency v")
          case None
          then show ?thesis using assms Some nf True Inr by (auto simp: handleCommand_def)
        next
          case f: (Some f)
          from assms(1) Some nf True Inr f
          have r: "s' = sendResponse w (Resp_FREQUENCY_CHANGED f now)
                     (startDataStream w (client\<lparr>client_filter := (client_filter client)\<lparr>frequency := f\<rparr>\<rparr>)
                        (case map_of (updateIntervals (set_client w (client\<lparr>client_filter := (client_filter client)\<lparr>frequency := f\<rparr>\<rparr>) s)) w of
                           None \<Rightarrow> set_client w (client\<lparr>client_filter := (client_filter client)\<lparr>frequency := f\<rparr>\<rparr>) s
                         | Some h \<Rightarrow> clearInterval h (set_client w (client\<lparr>client_filter := (client_filter client)\<lparr>frequency := f\<rparr>\<rparr>) s)))"
            by (simp add: handleCommand_def Let_def)
          show ?thesis unfolding r known_sendResponse kept_sendResponse
            using known_change_frequency[OF assms(2)] by blast
        qed
      qed
    next
      case False
      then show ?thesis using assms Some nf
        by (auto simp: handleCommand_def known_sendResponse kept_sendResponse objects_kept_refl
            split: if_splits)
    qed
  qed
qed

lemma known_handleMessage:
  assumes "handleMessage jp w t now s = Returned s'" "intervals_known s"
  shows "intervals_known s'"
proof (cases "startsWith_brace t")
  case False
  then show ?thesis using assms by (simp add: handleMessage_def)
next
  case True
  show ?thesis
  proof (cases "jp t")
    case None
    then show ?thesis using assms True
      by (auto simp: handleMessage_def sendError_def known_sendResponse)
  next
    case (Some m)
    show ?thesis
    proof (cases "isClientCommand m")
      case False
      then show ?thesis using assms True Some
        by (auto simp: handleMessage_def sendError_def known_sendResponse)
    next
      case ic: True
      show ?thesis
      proof (cases "handleCommand w m now s")
        case (Returned s1)
        then show ?thesis using assms True Some ic known_handleCommand[of w m now s s1]
          by (auto simp: handleMessage_def)
      next
        case (Raised e s1)
        then show ?thesis using assms True Some ic known_handleCommand[of w m now s s1 e]
          by (auto simp: handleMessage_def sendError_def known_sendResponse)
      next
        case OutsideModel
        then show ?thesis using assms True Some ic by (simp add: handleMessage_def)
      qed
    qed
  qed
qed

lemma known_handleConnection:
  assumes "intervals_known s" "map_of (client_objects s) w = None"
  shows "intervals_known (handleConnection w now s)"
proof -
  let ?c = "\<lparr>client_filter = \<lparr>symbols = [], frequency = DEFAULT_FREQUENCY\<rparr>,
             connectedAt = now, messagesSent = 0\<rparr>"
  let ?s1 = "(set_client w ?c s)
                 \<lparr>clients := (if w \<in> set (clients s) then clients s else clients s @ [w])\<rparr>"
  have k1: "intervals_known ?s1"
    by (rule known_cong[of _ "set_client w ?c s"])
       (simp_all add: known_set_client assms(1) objects_kept_def)
  have "list_all (\<lambda>(h, w', p). map_of (client_objects s) w' \<noteq> None) (activeIntervals s)"
    using assms(1) by (simp add: intervals_known_def)
  then have i1: "intervals_of w ?s1 = []"
    using assms(2) by (auto simp: intervals_of_def set_client_def list_all_iff filter_empty_conv)
  have m1: "map_of (client_objects ?s1) w \<noteq> None" by (simp add: set_client_fields)
  from known_start[OF k1 i1 m1]
  show ?thesis by (simp add: handleConnection_def Let_def known_sendResponse)
qed

lemma known_handleDisconnect:
  assumes "intervals_known s"
  shows "intervals_known (handleDisconnect w s)"
  using assms
  by (auto simp: handleDisconnect_def Let_def intervals_known_def intervals_owned_def
      clearInterval_def list_all_iff delete_conv' set_delete split: option.splits)

lemma known_tick: "intervals_known s \<Longrightarrow> intervals_known (tick bl h now t rnd s)"
  by (auto simp: tick_def intervals_known_def intervals_owned_def clearInterval_def Let_def
      encode_def list_all_iff set_delete update_conv' split: option.splits prod.splits)

lemma known_open: "intervals_known (s\<lparr>openSockets := xs\<rparr>) = intervals_known s"
  by (simp add: intervals_known_def intervals_owned_def)

lemma known_step:
  assumes "producer_step jp bl e s = Returned s'" "intervals_known s" "new_socket e s"
  shows "intervals_known s'"
proof (cases e)
  case (Connection w now)
  then show ?thesis using assms
      known_handleConnection[of "s\<lparr>openSockets := w # openSockets s\<rparr>" w now]
    by (auto simp: known_open)
next
  case (Message w t now)
  then show ?thesis using assms known_handleMessage[of jp w t now s s'] by simp
next
  case (Close w)
  then show ?thesis using assms
      known_handleDisconnect[of "s\<lparr>openSockets := removeAll w (openSockets s)\<rparr>" w]
    by (auto simp: known_open)
next
  case (Error w)
  then show ?thesis using assms known_handleDisconnect[of s w] by auto
next
  case (NotOpen w)
  then show ?thesis using assms by (auto simp: known_open)
next
  case (Tick h now t rnd)
  then show ?thesis using assms known_tick[of s bl h now t rnd] by auto
qed

lemma known_run:
  "producer_run jp bl es s = Returned s' \<Longrightarrow> new_sockets jp bl es s \<Longrightarrow>
   intervals_known s \<Longrightarrow> intervals_known s'"
proof (induction es arbitrary: s)
  case Nil
  then show ?case by simp
next
  case (Cons e es)
  then show ?case
    by (auto split: outcome.splits dest: known_step)
qed

lemma intervals_owned_reachable:
  assumes "producer_run jp bl es (producer_initial start cache) = Returned s"
    and "new_sockets jp bl es (producer_initial start cache)"
  shows "intervals_owned s"
proof -
  have "intervals_known (producer_initial start cache)"
    by (simp add: intervals_known_def intervals_owned_def producer_initial_def)
  from known_run[OF assms this] show ?thesis by (simp add: intervals_known_def)
qed

subsection \<open>Filtering\<close>

lemma one_client_state:
  "one_client =
     (producer_initial 0 example_cache)
       \<lparr>clients := [1],
        client_objects := [(1, \<lparr>client_filter = \<lparr>symbols = [], frequency = JFinite 10\<rparr>,
                               connectedAt = 0, messagesSent = 0\<rparr>)],
        updateIntervals := [(1, 1)],
        activeIntervals := [(1, 1, Quotient_1000 (JFinite 10))],
        nextInterval := 2,
        openSockets := [1],
        sent := [(1, Text (Resp_METRICS 1 0 0 0))]\<rparr>"
  by (simp add: one_client_def handleConnection_def producer_initial_def set_client_def
      startDataStream_def sendResponse_def DEFAULT_FREQUENCY_def Let_def)

text \<open>
  C5. For every record list (what \<open>getCurrentPrices\<close> returns) and every symbol list:
  \<open>getFilteredPrices\<close> with no symbols returns the full list unmodified, with symbols
  exactly the records whose symbol is among them, in source order; and the frame a tick
  sends carries the records so selected by the connection's filter.
\<close>

theorem filter_semantics:
  assumes "map_of (activeIntervals s) h = Some (w, p)"
    and "w \<in> set (openSockets s)"
    and "map_of (client_objects s) w = Some client"
  shows "getFilteredPrices rnd now cache [] = getCurrentPrices rnd now cache \<and>
         getFilteredPrices rnd now cache syms =
           spec_apply_filter syms (getCurrentPrices rnd now cache) \<and>
         getFilteredPrices rnd now cache (x # xs) =
           filter (\<lambda>r. symbol r \<in> set (x # xs)) (getCurrentPrices rnd now cache) \<and>
         subseq (getFilteredPrices rnd now cache syms) (getCurrentPrices rnd now cache) \<and>
         map cryptos (frames_of (sent (tick bl h now t rnd s))) =
           map cryptos (frames_of (sent s)) @
             [spec_apply_filter (symbols (client_filter client))
                (getCurrentPrices rnd now (cryptoCache s))]"
proof -
  have a: "getFilteredPrices rnd now cache [] = getCurrentPrices rnd now cache"
    by (simp add: getFilteredPrices_def)
  have b: "getFilteredPrices rnd now cache syms =
           spec_apply_filter syms (getCurrentPrices rnd now cache)"
    by (rule getFilteredPrices_spec)
  have c: "getFilteredPrices rnd now cache (x # xs) =
           filter (\<lambda>r. symbol r \<in> set (x # xs)) (getCurrentPrices rnd now cache)"
    by (simp add: getFilteredPrices_spec spec_apply_filter_def)
  have d: "subseq (getFilteredPrices rnd now cache syms) (getCurrentPrices rnd now cache)"
    unfolding getFilteredPrices_spec by (rule spec_apply_filter_subseq)
  have e: "map cryptos (frames_of (sent (tick bl h now t rnd s))) =
           map cryptos (frames_of (sent s)) @
             [spec_apply_filter (symbols (client_filter client))
                (getCurrentPrices rnd now (cryptoCache s))]"
    unfolding tick_sends(1)[OF assms] by (simp add: frames_of_append)
  from a b c d e show ?thesis by simp
qed

lemma example_prices:
  "getCurrentPrices half now example_cache =
     map (\<lambda>c. c\<lparr>lastUpdated := now\<rparr>) (map snd example_cache)"
  by (simp add: getCurrentPrices_def example_cache_def half_def randomChange_def
      randomBetween_def Let_def enumerate_eq_zip upt_rec)

theorem filter_semantics_witness:
  "map_of (activeIntervals one_client) 1 = Some (1, Quotient_1000 (JFinite 10)) \<and>
   1 \<in> set (openSockets one_client) \<and>
   map (map symbol) (map cryptos (frames_of (sent (tick example_byte_length 1 7 1 half one_client)))) =
     [[''BTC'', ''ETH'', ''SOL'']] \<and>
   map symbol (getFilteredPrices half 7 example_cache [''SOL'', ''BTC'']) = [''BTC'', ''SOL''] \<and>
   map symbol (getFilteredPrices half 7 example_cache []) = [''BTC'', ''ETH'', ''SOL'']"
proof -
  have h1: "map_of (activeIntervals one_client) 1 = Some (1, Quotient_1000 (JFinite 10))"
    by (simp add: one_client_state)
  have h2: "1 \<in> set (openSockets one_client)" by (simp add: one_client_state)
  have h3: "map_of (client_objects one_client) 1 =
      Some \<lparr>client_filter = \<lparr>symbols = [], frequency = JFinite 10\<rparr>, connectedAt = 0, messagesSent = 0\<rparr>"
    by (simp add: one_client_state)
  have c: "cryptoCache one_client = example_cache" "sent one_client = [(1, Text (Resp_METRICS 1 0 0 0))]"
    by (simp_all add: one_client_state producer_initial_def)
  note T = filter_semantics[OF h1 h2 h3, of half 7 example_cache "[''SOL'', ''BTC'']" "''SOL''"
      "[''BTC'']" example_byte_length 1]
  have e1: "map cryptos (frames_of (sent (tick example_byte_length 1 7 1 half one_client))) =
      [getCurrentPrices half 7 example_cache]"
    using T c by (simp add: spec_apply_filter_def)
  have e2: "getFilteredPrices half 7 example_cache [''SOL'', ''BTC''] =
      spec_apply_filter [''SOL'', ''BTC''] (getCurrentPrices half 7 example_cache)"
    using T by blast
  have e3: "getFilteredPrices half 7 example_cache [] = getCurrentPrices half 7 example_cache"
    using T by blast
  have p: "map symbol (getCurrentPrices half 7 example_cache) = [''BTC'', ''ETH'', ''SOL'']"
    by (simp add: example_prices) (simp add: example_cache_def)
  have v: "map symbol (spec_apply_filter [''SOL'', ''BTC''] (getCurrentPrices half 7 example_cache)) =
      [''BTC'', ''SOL'']"
    by (simp add: example_prices spec_apply_filter_def) (simp add: example_cache_def)
  show ?thesis unfolding e1 e2 e3 using h1 h2 p v by simp
qed

subsection \<open>Frame identifiers and record counts\<close>

lemma frames_numbered_length:
  assumes "frames_numbered s"
  shows "length (frames_of (sent s)) = frameCounter (encoder s)"
proof -
  from assms have "length (map frameId (frames_of (sent s))) = length [0..<frameCounter (encoder s)]"
    by (simp only: frames_numbered_def)
  then show ?thesis by simp
qed

text \<open>
  C6. The frames the dispatcher has sent, over all connections and in the order sent,
  carry the identifiers \<open>0, 1, 2, ...\<close>: the counter starts at 0 and every tick that
  encodes takes the current value and adds one, whatever the connection's filter; and
  the record count of every frame is the length of the record sequence in it, which for
  a tick is the sequence left by the filter.
\<close>

theorem frame_ids_increase:
  assumes "producer_run jp bl evs (producer_initial start cache) = Returned s'"
    and "map_of (activeIntervals s) h = Some (w, p)"
    and "w \<in> set (openSockets s)"
    and "map_of (client_objects s) w = Some client"
  shows "map frameId (frames_of (sent s')) = [0..<length (frames_of (sent s'))] \<and>
         frameCounter (encoder s') = length (frames_of (sent s')) \<and>
         list_all (\<lambda>f. totalCryptos f = length (cryptos f)) (frames_of (sent s')) \<and>
         frames_of (sent (tick bl h now t rnd s)) =
           frames_of (sent s) @
             [\<lparr>cryptos = spec_apply_filter (symbols (client_filter client))
                           (getCurrentPrices rnd now (cryptoCache s)),
               frameId = frameCounter (encoder s),
               timestamp = now,
               totalCryptos = length (spec_apply_filter (symbols (client_filter client))
                                        (getCurrentPrices rnd now (cryptoCache s)))\<rparr>] \<and>
         frameCounter (encoder (tick bl h now t rnd s)) = frameCounter (encoder s) + 1 \<and>
         map frameId (fst (encode_all calls Encoder_initial)) = [0..<length calls] \<and>
         map totalCryptos (fst (encode_all calls e)) = map (\<lambda>c. length (snd (snd c))) calls"
proof -
  have n: "frames_numbered s'"
    using run_numbered[OF assms(1) initial_numbered] .
  have len: "length (frames_of (sent s')) = frameCounter (encoder s')"
    using frames_numbered_length[OF n] .
  have a: "map frameId (frames_of (sent s')) = [0..<length (frames_of (sent s'))]"
    using n len by (simp add: frames_numbered_def)
  have b: "list_all (\<lambda>f. totalCryptos f = length (cryptos f)) (frames_of (sent s'))"
    using n by (simp add: frames_numbered_def)
  have c: "frames_of (sent (tick bl h now t rnd s)) =
           frames_of (sent s) @
             [\<lparr>cryptos = spec_apply_filter (symbols (client_filter client))
                           (getCurrentPrices rnd now (cryptoCache s)),
               frameId = frameCounter (encoder s),
               timestamp = now,
               totalCryptos = length (spec_apply_filter (symbols (client_filter client))
                                        (getCurrentPrices rnd now (cryptoCache s)))\<rparr>]"
    unfolding tick_sends(1)[OF assms(2-4)] by (simp add: frames_of_append)
  have d: "frameCounter (encoder (tick bl h now t rnd s)) = frameCounter (encoder s) + 1"
    using tick_sends(2)[OF assms(2-4)] .
  have e: "map frameId (fst (encode_all calls Encoder_initial)) = [0..<length calls]"
    using encode_all_ids[of calls Encoder_initial] by (simp add: Encoder_initial_def)
  have f: "map totalCryptos (fst (encode_all calls e)) = map (\<lambda>c. length (snd (snd c))) calls"
    by (rule encode_all_totalCryptos)
  from a b c d e f len show ?thesis by simp
qed

lemma filter_coins_guards:
  "isClientCommand (filter_coins_command syms)"
  "isFilterCoinsCommand (filter_coins_command syms)"
  "payload_field (filter_coins_command syms) ''symbols'' = Inr (Some (JArr (map JStr syms)))"
  by (simp_all add: filter_coins_command_def isClientCommand_def
      isFilterCoinsCommand_def payload_field_def)

lemma as_strings_map: "as_strings (map JStr syms) = Some syms"
  by (induction syms) simp_all

lemma handleMessage_command:
  assumes "startsWith_brace t" "isClientCommand m" "handleCommand w m now s = Returned s'"
  shows "handleMessage (parse_as m) w t now s = Returned s'"
  using assms by (simp add: handleMessage_def parse_as_def)

lemma two_ticks_run:
  \<open>producer_run (parse_as (filter_coins_command [''ETH''])) example_byte_length
     [Connection 1 0, Tick 1 100 1 half,
      Message 1 ''{"type":"FILTER_COINS","payload":{"symbols":["ETH"]}}'' 150,
      Tick 1 200 1 half]
     (producer_initial 0 example_cache) = Returned two_ticks\<close>
proof -
  let ?jp = "parse_as (filter_coins_command [''ETH''])"
  let ?s1 = "tick example_byte_length 1 100 1 half one_client"
  have st1: "producer_step ?jp example_byte_length (Connection 1 0)
      (producer_initial 0 example_cache) = Returned one_client"
    by (simp add: one_client_def producer_initial_def)
  have st2: "producer_step ?jp example_byte_length (Tick 1 100 1 half) one_client = Returned ?s1"
    by simp
  have c1: "clients_get ?s1 1 =
      Some \<lparr>client_filter = \<lparr>symbols = [], frequency = JFinite 10\<rparr>, connectedAt = 0, messagesSent = 1\<rparr>"
    by (simp add: one_client_state tick_def clients_get_def encode_def Let_def producer_initial_def)
  have hc: "handleCommand 1 (filter_coins_command [''ETH'']) 150 ?s1 =
      Returned (sendResponse 1 (Resp_FILTER_APPLIED [''ETH''] 150)
          (set_client 1
             \<lparr>client_filter = \<lparr>symbols = [''ETH''], frequency = JFinite 10\<rparr>, connectedAt = 0,
              messagesSent = 1\<rparr> ?s1))"
    unfolding handleCommand_def c1 by (simp add: filter_coins_guards as_strings_map Let_def)
  have st3: \<open>producer_step ?jp example_byte_length
      (Message 1 ''{"type":"FILTER_COINS","payload":{"symbols":["ETH"]}}'' 150) ?s1 =
      Returned (sendResponse 1 (Resp_FILTER_APPLIED [''ETH''] 150)
          (set_client 1
             \<lparr>client_filter = \<lparr>symbols = [''ETH''], frequency = JFinite 10\<rparr>, connectedAt = 0,
              messagesSent = 1\<rparr> ?s1))\<close>
    unfolding producer_step.simps
    by (rule handleMessage_command[OF _ filter_coins_guards(1) hc])
       (simp add: startsWith_brace_def)
  show ?thesis
    by (simp only: producer_run.simps st1 st2 st3 producer_step.simps(6) outcome.case two_ticks_def)
qed

lemma two_ticks_frames:
  "map frameId (frames_of (sent two_ticks)) = [0, 1]"
  "map totalCryptos (frames_of (sent two_ticks)) = [3, 1]"
  "map (map symbol \<circ> cryptos) (frames_of (sent two_ticks)) = [[''BTC'', ''ETH'', ''SOL''], [''ETH'']]"
  by (simp_all add: two_ticks_def one_client_state tick_def encode_def Let_def
      producer_initial_def sendResponse_def set_client_def getFilteredPrices_def
      Encoder_initial_def example_prices)
     (simp_all add: example_cache_def)

theorem frame_ids_increase_witness:
  \<open>producer_run (parse_as (filter_coins_command [''ETH''])) example_byte_length
     [Connection 1 0, Tick 1 100 1 half,
      Message 1 ''{"type":"FILTER_COINS","payload":{"symbols":["ETH"]}}'' 150,
      Tick 1 200 1 half]
     (producer_initial 0 example_cache) = Returned two_ticks \<and>
   map_of (activeIntervals one_client) 1 = Some (1, Quotient_1000 (JFinite 10)) \<and>
   1 \<in> set (openSockets one_client) \<and>
   map frameId (frames_of (sent two_ticks)) = [0, 1] \<and>
   map totalCryptos (frames_of (sent two_ticks)) = [3, 1] \<and>
   frameCounter (encoder two_ticks) = 2 \<and>
   frameCounter (encoder (tick example_byte_length 1 100 1 half one_client)) = 1\<close>
proof -
  have h1: "map_of (activeIntervals one_client) 1 = Some (1, Quotient_1000 (JFinite 10))"
    by (simp add: one_client_state)
  have h2: "1 \<in> set (openSockets one_client)" by (simp add: one_client_state)
  have h3: "map_of (client_objects one_client) 1 =
      Some \<lparr>client_filter = \<lparr>symbols = [], frequency = JFinite 10\<rparr>, connectedAt = 0, messagesSent = 0\<rparr>"
    by (simp add: one_client_state)
  have e0: "frameCounter (encoder one_client) = 0"
    by (simp add: one_client_state producer_initial_def Encoder_initial_def)
  note T = frame_ids_increase[OF two_ticks_run h1 h2 h3, of 100 1 half "[]" Encoder_initial]
  from T have a: "frameCounter (encoder two_ticks) = length (frames_of (sent two_ticks))" by blast
  from T have b: "frameCounter (encoder (tick example_byte_length 1 100 1 half one_client)) =
      frameCounter (encoder one_client) + 1" by blast
  have l: "length (frames_of (sent two_ticks)) = 2"
    using arg_cong[OF two_ticks_frames(1), of length] by simp
  show ?thesis using two_ticks_run h1 h2 two_ticks_frames(1,2) a b l e0 by simp
qed

subsection \<open>The encoder's counters\<close>

text \<open>
  C10. After \<open>resetMetrics\<close> and any sequence of \<open>n\<close> calls of \<open>encode\<close> (whoever makes
  them), \<open>getMetrics()\<close> reports \<open>currentFrameId = n\<close> and \<open>totalEncoded = n\<close>.
\<close>

theorem encoder_counts_encodes:
  "currentFrameId (Encoder_getMetrics (snd (encode_all calls (Encoder_resetMetrics e)))) =
     length calls \<and>
   em_totalEncoded (Encoder_getMetrics (snd (encode_all calls (Encoder_resetMetrics e)))) =
     length calls"
  by (simp add: Encoder_getMetrics_def encode_all_frameCounter encode_all_totalEncoded
      Encoder_resetMetrics_def)

subsection \<open>Cadence commands\<close>

lemma one_client_owned: "intervals_owned one_client"
  by (simp add: intervals_owned_def one_client_state)

lemma one_client_get:
  "clients_get one_client 1 =
     Some \<lparr>client_filter = \<lparr>symbols = [], frequency = JFinite 10\<rparr>, connectedAt = 0, messagesSent = 0\<rparr>"
  by (simp add: clients_get_def one_client_state)

lemma change_frequency_not_filter: "\<not> isFilterCoinsCommand (change_frequency_command f)"
  by (simp add: isFilterCoinsCommand_def change_frequency_command_def)

lemma cadence_15:
  "handleCommand 1 (change_frequency_command (JFinite 15)) 5 one_client =
     Returned
       (one_client
          \<lparr>client_objects := [(1, \<lparr>client_filter = \<lparr>symbols = [], frequency = JFinite 15\<rparr>,
                                  connectedAt = 0, messagesSent = 0\<rparr>)],
           updateIntervals := [(1, 2)],
           activeIntervals := [(2, 1, Quotient_1000 (JFinite 15))],
           nextInterval := 3,
           sent := [(1, Text (Resp_METRICS 1 0 0 0)),
                    (1, Text (Resp_FREQUENCY_CHANGED (JFinite 15) 5))]\<rparr>)"
  unfolding handleCommand_def one_client_get
  by (simp add: change_frequency_guards change_frequency_not_filter
        Let_def set_client_def startDataStream_def clearInterval_def sendResponse_def
        one_client_state producer_initial_def)

lemma cadence_15_message:
  \<open>handleMessage (parse_as (change_frequency_command (JFinite 15))) 1
     ''{"type":"CHANGE_FREQUENCY","payload":{"frequency":15}}'' 5 one_client =
   Returned
     (one_client
        \<lparr>client_objects := [(1, \<lparr>client_filter = \<lparr>symbols = [], frequency = JFinite 15\<rparr>,
                                connectedAt = 0, messagesSent = 0\<rparr>)],
         updateIntervals := [(1, 2)],
         activeIntervals := [(2, 1, Quotient_1000 (JFinite 15))],
         nextInterval := 3,
         sent := [(1, Text (Resp_METRICS 1 0 0 0)),
                  (1, Text (Resp_FREQUENCY_CHANGED (JFinite 15) 5))]\<rparr>)\<close>
  by (rule handleMessage_command[OF _ change_frequency_guards(1) cadence_15])
     (simp add: startsWith_brace_def)

text \<open>
  C2 (what the code does). A \<open>CHANGE_FREQUENCY\<close> command whose frequency is a number other
  than 10, 20 and 30 is not rejected: \<open>handleCommand\<close> sets the connection's frequency to
  the requested number, cancels the existing repeating tick, starts a new one whose
  period is computed from that number, and replies \<open>FREQUENCY_CHANGED\<close> with it (when the
  socket is open); nothing else is sent, so no \<open>ERROR\<close> with the code
  \<open>INVALID_CADENCE\<close>. The hypothesis on the intervals holds in every state the dispatcher
  reaches (\<open>intervals_owned_reachable\<close>).
\<close>

theorem invalid_cadence_accepted:
  assumes "clients_get s w = Some client"
    and "intervals_owned s"
    and "isChangeFrequencyCommand cmd"
    and "payload_field cmd ''frequency'' = Inr (Some (JNum f))"
    and "f \<noteq> JFinite 10" "f \<noteq> JFinite 20" "f \<noteq> JFinite 30"
  shows "\<exists>s'. handleCommand w cmd now s = Returned s' \<and>
          clients_get s' w =
            Some (client\<lparr>client_filter := (client_filter client)\<lparr>frequency := f\<rparr>\<rparr>) \<and>
          sent s' = sent s @ (if w \<in> set (openSockets s)
                              then [(w, Text (Resp_FREQUENCY_CHANGED f now))] else []) \<and>
          map_of (updateIntervals s') w = Some (nextInterval s) \<and>
          intervals_of w s' = [(nextInterval s, w, Quotient_1000 f)]"
proof -
  from assms(1) have mem: "w \<in> set (clients s)"
    and obj: "map_of (client_objects s) w = Some client"
    by (simp_all add: clients_get_def split: if_splits)
  from assms(3) have nf: "\<not> isFilterCoinsCommand cmd"
    by (simp add: isChangeFrequencyCommand_def isFilterCoinsCommand_def)
  show ?thesis using assms(1-4) old_intervals_cleared[OF assms(2), of w] mem obj nf
    by (auto simp: handleCommand_def Let_def set_client_def
        startDataStream_def clearInterval_def sendResponse_def clients_get_def update_conv'
        intervals_of_def split: option.splits)
qed

theorem invalid_cadence_accepted_witness:
  \<open>clients_get one_client 1 =
     Some \<lparr>client_filter = \<lparr>symbols = [], frequency = JFinite 10\<rparr>, connectedAt = 0, messagesSent = 0\<rparr> \<and>
   intervals_owned one_client \<and>
   isChangeFrequencyCommand (change_frequency_command (JFinite 15)) \<and>
   payload_field (change_frequency_command (JFinite 15)) ''frequency'' =
     Inr (Some (JNum (JFinite 15))) \<and>
   JFinite 15 \<noteq> JFinite 10 \<and> JFinite 15 \<noteq> JFinite 20 \<and> JFinite 15 \<noteq> JFinite 30 \<and>
   intervals_of 1 one_client = [(1, 1, Quotient_1000 (JFinite 10))] \<and>
   (\<exists>s'. handleMessage (parse_as (change_frequency_command (JFinite 15))) 1
           ''{"type":"CHANGE_FREQUENCY","payload":{"frequency":15}}'' 5 one_client = Returned s' \<and>
      clients_get s' 1 =
        Some \<lparr>client_filter = \<lparr>symbols = [], frequency = JFinite 15\<rparr>, connectedAt = 0, messagesSent = 0\<rparr> \<and>
      sent s' = [(1, Text (Resp_METRICS 1 0 0 0)),
                 (1, Text (Resp_FREQUENCY_CHANGED (JFinite 15) 5))] \<and>
      intervals_of 1 s' = [(2, 1, Quotient_1000 (JFinite 15))])\<close>
proof -
  have i: "intervals_of 1 one_client = [(1, 1, Quotient_1000 (JFinite 10))]"
    by (simp add: intervals_of_def one_client_state)
  have o: "1 \<in> set (openSockets one_client)" "nextInterval one_client = 2"
    "sent one_client = [(1, Text (Resp_METRICS 1 0 0 0))]"
    by (simp_all add: one_client_state)
  have d: "JFinite 15 \<noteq> JFinite 10" "JFinite 15 \<noteq> JFinite 20" "JFinite 15 \<noteq> JFinite 30"
    by simp_all
  from invalid_cadence_accepted[OF one_client_get one_client_owned
      change_frequency_guards(2) change_frequency_guards(3) d, of 5]
  obtain s' where s':
    "handleCommand 1 (change_frequency_command (JFinite 15)) 5 one_client = Returned s'"
    "clients_get s' 1 =
       Some (\<lparr>client_filter = \<lparr>symbols = [], frequency = JFinite 10\<rparr>, connectedAt = 0,
              messagesSent = 0\<rparr>
              \<lparr>client_filter := \<lparr>symbols = [], frequency = JFinite 10\<rparr>\<lparr>frequency := JFinite 15\<rparr>\<rparr>)"
    "sent s' = sent one_client @ (if 1 \<in> set (openSockets one_client)
                              then [(1, Text (Resp_FREQUENCY_CHANGED (JFinite 15) 5))] else [])"
    "intervals_of 1 s' = [(nextInterval one_client, 1, Quotient_1000 (JFinite 15))]"
    by auto
  have m: \<open>handleMessage (parse_as (change_frequency_command (JFinite 15))) 1
           ''{"type":"CHANGE_FREQUENCY","payload":{"frequency":15}}'' 5 one_client = Returned s'\<close>
    by (rule handleMessage_command[OF _ change_frequency_guards(1) s'(1)])
       (simp add: startsWith_brace_def)
  have \<open>handleMessage (parse_as (change_frequency_command (JFinite 15))) 1
           ''{"type":"CHANGE_FREQUENCY","payload":{"frequency":15}}'' 5 one_client = Returned s' \<and>
      clients_get s' 1 =
        Some \<lparr>client_filter = \<lparr>symbols = [], frequency = JFinite 15\<rparr>, connectedAt = 0, messagesSent = 0\<rparr> \<and>
      sent s' = [(1, Text (Resp_METRICS 1 0 0 0)),
                 (1, Text (Resp_FREQUENCY_CHANGED (JFinite 15) 5))] \<and>
      intervals_of 1 s' = [(2, 1, Quotient_1000 (JFinite 15))]\<close>
    using m s'(2-4) o by simp
  then have \<open>\<exists>s'. handleMessage (parse_as (change_frequency_command (JFinite 15))) 1
           ''{"type":"CHANGE_FREQUENCY","payload":{"frequency":15}}'' 5 one_client = Returned s' \<and>
      clients_get s' 1 =
        Some \<lparr>client_filter = \<lparr>symbols = [], frequency = JFinite 15\<rparr>, connectedAt = 0, messagesSent = 0\<rparr> \<and>
      sent s' = [(1, Text (Resp_METRICS 1 0 0 0)),
                 (1, Text (Resp_FREQUENCY_CHANGED (JFinite 15) 5))] \<and>
      intervals_of 1 s' = [(2, 1, Quotient_1000 (JFinite 15))]\<close> by (rule exI)
  with one_client_get one_client_owned change_frequency_guards(2,3) i d show ?thesis by blast
qed

subsection \<open>Unknown command types\<close>

lemma unknown_guards:
  "isClientCommand unknown_command"
  "\<not> isClientCommand unknown_without_payload"
  by (simp_all add: unknown_command_def unknown_without_payload_def isClientCommand_def)

text \<open>
  C7 (what the code does). A message whose type is a string other than the three command
  identifiers and which has a payload passes \<open>isClientCommand\<close>, matches no branch of
  \<open>handleCommand\<close> and is dropped: the state is unchanged and nothing is sent. Only a
  message that fails \<open>isClientCommand\<close> (here: no payload) is answered, with the error
  "Invalid command format".
\<close>

theorem unknown_type_dropped:
  assumes "ty \<noteq> ''FILTER_COINS''" "ty \<noteq> ''CHANGE_FREQUENCY''" "ty \<noteq> ''GET_METRICS''"
    and "startsWith_brace t"
    and "json_parse t = Some (JObj kvs)"
    and "map_of kvs ''type'' = Some (JStr ty)"
    and "map_of kvs ''payload'' = Some payload"
  shows "isClientCommand (JObj kvs) \<and>
         handleCommand w (JObj kvs) now s = Returned s \<and>
         handleMessage json_parse w t now s = Returned s \<and>
         handleMessage (parse_as unknown_without_payload) w t now s =
           Returned (sendError w ''Invalid command format'' None s)"
proof -
  have g: "isClientCommand (JObj kvs)"
    using assms(6,7) by (simp add: isClientCommand_def)
  have n: "\<not> isFilterCoinsCommand (JObj kvs)" "\<not> isChangeFrequencyCommand (JObj kvs)"
    "\<not> isGetMetricsCommand (JObj kvs)"
    using assms(1,2,3,6)
    by (simp_all add: isFilterCoinsCommand_def isChangeFrequencyCommand_def isGetMetricsCommand_def)
  have c: "handleCommand w (JObj kvs) now s = Returned s"
    using n by (simp add: handleCommand_def split: option.splits)
  have m: "handleMessage json_parse w t now s = Returned s"
    using assms(4,5) g c by (simp add: handleMessage_def)
  have e: "handleMessage (parse_as unknown_without_payload) w t now s =
           Returned (sendError w ''Invalid command format'' None s)"
    using assms(4) unknown_guards(2) by (simp add: handleMessage_def parse_as_def)
  from g c m e show ?thesis by simp
qed

theorem unknown_type_dropped_witness:
  \<open>isClientCommand unknown_command \<and>
   handleMessage (parse_as unknown_command) 1 ''{"type":"FOO","payload":{}}'' 5 one_client =
     Returned one_client \<and>
   sent one_client = [(1, Text (Resp_METRICS 1 0 0 0))]\<close>
proof -
  have h: \<open>startsWith_brace ''{"type":"FOO","payload":{}}''\<close>
    by (simp add: startsWith_brace_def)
  have p: \<open>parse_as unknown_command ''{"type":"FOO","payload":{}}'' =
      Some (JObj [(''type'', JStr ''FOO''), (''payload'', JObj [])])\<close>
    by (simp add: parse_as_def unknown_command_def)
  have t: "map_of [(''type'', JStr ''FOO''), (''payload'', JObj [])] ''type'' = Some (JStr ''FOO'')"
    "map_of [(''type'', JStr ''FOO''), (''payload'', JObj [])] ''payload'' = Some (JObj [])"
    by simp_all
  have d: "''FOO'' \<noteq> ''FILTER_COINS''" "''FOO'' \<noteq> ''CHANGE_FREQUENCY''" "''FOO'' \<noteq> ''GET_METRICS''"
    by simp_all
  from unknown_type_dropped[where json_parse = "parse_as unknown_command" and ty = "''FOO''"
      and kvs = "[(''type'', JStr ''FOO''), (''payload'', JObj [])]" and w = 1 and now = 5
      and s = one_client, OF d h p t]
  show ?thesis by (simp add: unknown_command_def one_client_state)
qed

end
